theory Spec2Isabelle
  imports Main "HOL-Library.Sublist"
begin

section \<open>JavaScript values and string primitives\<close>

text \<open>
  The validators of \<^verbatim>\<open>date.validation.ts\<close> and of the string validator are written
  against \<^verbatim>\<open>Record<string, any>\<close> and \<^verbatim>\<open>validationArgs?: any\<close>, so field values, bounds
  and validation arguments are arbitrary JavaScript values. The shapes below are the ones
  the code distinguishes (truthiness, \<^verbatim>\<open>Array.isArray\<close>, presence of \<^verbatim>\<open>toLowerCase\<close>,
  indexing with \<^verbatim>\<open>[0]\<close>). Numbers are integers; strings are byte strings, so the
  case mapping and the character classes below are the ASCII ones.
\<close>

datatype jsval =
    JUndefined
  | JNull
  | JBool bool
  | JNum int
  | JStr string
  | JArr "jsval list"

datatype exn = TypeError | RangeError

datatype 'a outcome = Returned 'a | Threw exn

fun truthy :: "jsval \<Rightarrow> bool" where
  "truthy JUndefined = False"
| "truthy JNull = False"
| "truthy (JBool b) = b"
| "truthy (JNum n) = (n \<noteq> 0)"
| "truthy (JStr s) = (s \<noteq> [])"
| "truthy (JArr xs) = True"

definition digit_char :: "nat \<Rightarrow> char" where
  "digit_char n = ''0123456789'' ! (n mod 10)"

fun dec_nat :: "nat \<Rightarrow> string" where
  "dec_nat n = (if n < 10 then [digit_char n] else dec_nat (n div 10) @ [digit_char (n mod 10)])"

declare dec_nat.simps [simp del]

definition dec_int :: "int \<Rightarrow> string" where
  "dec_int i = (if i < 0 then CHR ''-'' # dec_nat (nat (- i)) else dec_nat (nat i))"

text \<open>A JavaScript number that may be \<^verbatim>\<open>NaN\<close> (\<open>None\<close>), and \<^verbatim>\<open>Number.prototype.toString\<close>.\<close>

type_synonym jsnum = "int option"

definition num_toString :: "jsnum \<Rightarrow> string" where
  "num_toString n = (case n of None \<Rightarrow> ''NaN'' | Some i \<Rightarrow> dec_int i)"

fun join :: "string \<Rightarrow> string list \<Rightarrow> string" where
  "join sep [] = []"
| "join sep [x] = x"
| "join sep (x # y # ys) = x @ sep @ join sep (y # ys)"

text \<open>\<^verbatim>\<open>String(v)\<close>, which is also what a template literal and \<^verbatim>\<open>v.toString()\<close> give.\<close>

fun js_toString :: "jsval \<Rightarrow> string" where
  "js_toString JUndefined = ''undefined''"
| "js_toString JNull = ''null''"
| "js_toString (JBool b) = (if b then ''true'' else ''false'')"
| "js_toString (JNum n) = dec_int n"
| "js_toString (JStr s) = s"
| "js_toString (JArr xs) =
     join '','' (map (\<lambda>x. if x = JUndefined \<or> x = JNull then [] else js_toString x) xs)"

definition toLowerCase :: "string \<Rightarrow> string" where
  "toLowerCase s =
     map (\<lambda>c. case map_of (zip ''ABCDEFGHIJKLMNOPQRSTUVWXYZ'' ''abcdefghijklmnopqrstuvwxyz'') c of
                 Some l \<Rightarrow> l | None \<Rightarrow> c) s"

text \<open>\<^verbatim>\<open>s.includes(sub)\<close>.\<close>

fun str_includes :: "string \<Rightarrow> string \<Rightarrow> bool" where
  "str_includes [] sub = (sub = [])"
| "str_includes (c # cs) sub = (prefix sub (c # cs) \<or> str_includes cs sub)"

text \<open>\<^verbatim>\<open>s.padStart(n, c)\<close> for a one-character pad string, and \<^verbatim>\<open>s.slice(-n)\<close>.\<close>

definition padStart :: "nat \<Rightarrow> char \<Rightarrow> string \<Rightarrow> string" where
  "padStart n c s = replicate (n - length s) c @ s"

definition slice_last :: "nat \<Rightarrow> string \<Rightarrow> string" where
  "slice_last n s = drop (length s - n) s"

text \<open>\<^verbatim>\<open>s.split(re)\<close> for a regular expression matching single characters.\<close>

fun split_on :: "(char \<Rightarrow> bool) \<Rightarrow> string \<Rightarrow> string list" where
  "split_on p [] = [[]]"
| "split_on p (c # cs) =
     (if p c then [] # split_on p cs
      else (case split_on p cs of [] \<Rightarrow> [[c]] | x # xs \<Rightarrow> (c # x) # xs))"

definition is_digit :: "char \<Rightarrow> bool" where
  "is_digit c = (c \<in> set ''0123456789'')"

text \<open>
  \<^verbatim>\<open>parseInt\<close> of a string of decimal digits, as the exact integer (the rounding of
  amounts beyond \<open>2^53\<close> to a double is not modelled).
\<close>

definition digits_val :: "string \<Rightarrow> int" where
  "digits_val s = foldl (\<lambda>acc c. 10 * acc + (of_char c - 48)) 0 s"

text \<open>
  The character class \<^verbatim>\<open>[-\/.\s]\<close> of line 107. Strings are byte strings, so \<^verbatim>\<open>\s\<close>
  is the ASCII white space; the other characters that \<^verbatim>\<open>\s\<close> matches in JavaScript
  (U+00A0 and further Unicode spaces) are not single characters here and do not separate.
\<close>

definition is_format_separator :: "char \<Rightarrow> bool" where
  "is_format_separator c =
     (c \<in> set [CHR ''-'', CHR ''/'', CHR ''.'', CHR '' '', CHR 0x09, CHR 0x0A, CHR 0x0B, CHR 0x0C, CHR 0x0D])"

section \<open>The host: wall clock, built-in Date and the chrono parser\<close>

text \<open>
  A \<^verbatim>\<open>Date\<close> object is its time value: milliseconds since the epoch, or \<^verbatim>\<open>NaN\<close> for an
  "Invalid Date" (which is still a truthy object).
\<close>

datatype jsdate = Instant int | InvalidDate

text \<open>What \<^verbatim>\<open>chrono.parseDate(text)\<close> can do: return a Date, return \<^verbatim>\<open>null\<close>, or throw.\<close>

datatype chrono_result = Parsed jsdate | NoResult | ChronoThrows

text \<open>
  Everything the date validator takes from outside the repository is a field of the host:
  the wall clock (\<open>clock h k\<close> is what the \<open>k\<close>-th read of the clock returns), the
  third-party parser (given the instant at which it is called and the text), and the
  calendar methods of the built-in Date in the host's time zone and locale, on a valid
  time value.
\<close>

record host =
  clock :: "nat \<Rightarrow> int"
  chrono_parseDate :: "int \<Rightarrow> string \<Rightarrow> chrono_result"
  getFullYear :: "int \<Rightarrow> int"
  getMonth :: "int \<Rightarrow> int"
  getDate :: "int \<Rightarrow> int"
  monthLong :: "int \<Rightarrow> string"
  monthShort :: "int \<Rightarrow> string"
  toLocaleDateString :: "int \<Rightarrow> string"
  toISOString :: "int \<Rightarrow> string"
  setDate :: "int \<Rightarrow> int \<Rightarrow> jsdate"
  setMonth :: "int \<Rightarrow> int \<Rightarrow> jsdate"
  setFullYear :: "int \<Rightarrow> int \<Rightarrow> jsdate"

text \<open>The Date methods on a possibly invalid Date, as ECMAScript defines them.\<close>

definition date_getFullYear :: "host \<Rightarrow> jsdate \<Rightarrow> jsnum" where
  "date_getFullYear h d = (case d of Instant t \<Rightarrow> Some (getFullYear h t) | InvalidDate \<Rightarrow> None)"

definition date_getMonth :: "host \<Rightarrow> jsdate \<Rightarrow> jsnum" where
  "date_getMonth h d = (case d of Instant t \<Rightarrow> Some (getMonth h t) | InvalidDate \<Rightarrow> None)"

definition date_getDate :: "host \<Rightarrow> jsdate \<Rightarrow> jsnum" where
  "date_getDate h d = (case d of Instant t \<Rightarrow> Some (getDate h t) | InvalidDate \<Rightarrow> None)"

definition date_monthLong :: "host \<Rightarrow> jsdate \<Rightarrow> string" where
  "date_monthLong h d = (case d of Instant t \<Rightarrow> monthLong h t | InvalidDate \<Rightarrow> ''Invalid Date'')"

definition date_monthShort :: "host \<Rightarrow> jsdate \<Rightarrow> string" where
  "date_monthShort h d = (case d of Instant t \<Rightarrow> monthShort h t | InvalidDate \<Rightarrow> ''Invalid Date'')"

definition date_toLocaleDateString :: "host \<Rightarrow> jsdate \<Rightarrow> string" where
  "date_toLocaleDateString h d =
     (case d of Instant t \<Rightarrow> toLocaleDateString h t | InvalidDate \<Rightarrow> ''Invalid Date'')"

definition date_toISOString :: "host \<Rightarrow> jsdate \<Rightarrow> string outcome" where
  "date_toISOString h d =
     (case d of Instant t \<Rightarrow> Returned (toISOString h t) | InvalidDate \<Rightarrow> Threw RangeError)"

definition plus1 :: "jsnum \<Rightarrow> jsnum" where
  "plus1 n = map_option (\<lambda>i. i + 1) n"

section \<open>DateValidator.formatDate (lines 58-127)\<close>

text \<open>
  \<open>year\<close> is a number or a string in the source; it only ever reaches the result through
  \<^verbatim>\<open>join\<close> or a template literal, so it is kept as the string it is converted to. For a
  string \<^verbatim>\<open>dateFormat\<close> no operation of the \<^verbatim>\<open>try\<close> block throws, so the \<^verbatim>\<open>catch\<close> block
  of lines 123-126 is not reached and the function returns a string.
\<close>

definition formatDate :: "host \<Rightarrow> jsdate \<Rightarrow> string \<Rightarrow> string" where
  "formatDate h date dateFormat =
     (if dateFormat = [] then date_toLocaleDateString h date
      else
        let format = toLowerCase dateFormat;
            delimiter =
              (if \<not> str_includes format ''mmmm'' \<and> \<not> str_includes format ''mmm'' then
                 (if str_includes format ''/'' then ''/''
                  else if str_includes format ''-'' then ''-''
                  else if str_includes format ''.'' then ''.''
                  else '' '')
               else '' '');
            month =
              (if str_includes format ''mmmm'' then date_monthLong h date
               else if str_includes format ''mmm'' then date_monthShort h date
               else if str_includes format ''mm'' then
                 padStart 2 (CHR ''0'') (num_toString (plus1 (date_getMonth h date)))
               else num_toString (plus1 (date_getMonth h date)));
            year =
              (if str_includes format ''yyyy'' then num_toString (date_getFullYear h date)
               else if str_includes format ''yy'' then
                 slice_last 2 (num_toString (date_getFullYear h date))
               else num_toString (date_getFullYear h date));
            day =
              (if str_includes format ''dd'' then
                 padStart 2 (CHR ''0'') (num_toString (date_getDate h date))
               else num_toString (date_getDate h date));
            formatParts = split_on is_format_separator format;
            components =
              foldl (\<lambda>components part.
                       if str_includes part ''y'' then components @ [year]
                       else if str_includes part ''m'' then components @ [month]
                       else if str_includes part ''d'' then components @ [day]
                       else components) [] formatParts
        in if length components \<noteq> 3 then
             year @ ''-'' @ padStart 2 (CHR ''0'') (num_toString (plus1 (date_getMonth h date)))
                  @ ''-'' @ padStart 2 (CHR ''0'') day
           else join delimiter components)"

section \<open>An example host: UTC, en-US\<close>

text \<open>
  A concrete host for evaluating the validators: the proleptic Gregorian calendar in UTC
  (days since the epoch to year, month, day and back), the en-US month names, a clock
  that starts at 2024-03-15T00:00:00.000Z and advances one millisecond per read, and a
  parser that understands exactly the texts \<^verbatim>\<open>YYYY-MM-DD\<close> (as noon of that day).
\<close>

definition civil :: "int \<Rightarrow> int \<times> int \<times> int" where
  "civil t =
     (let z = t div 86400000 + 719468;
          era = z div 146097;
          doe = z mod 146097;
          yoe = (doe - doe div 1460 + doe div 36524 - doe div 146096) div 365;
          doy = doe - (365 * yoe + yoe div 4 - yoe div 100);
          mp = (5 * doy + 2) div 153;
          d = doy - (153 * mp + 2) div 5 + 1;
          m = (if mp < 10 then mp + 3 else mp - 9)
      in (yoe + era * 400 + (if m \<le> 2 then 1 else 0), m, d))"

definition days_from_civil :: "int \<Rightarrow> int \<Rightarrow> int \<Rightarrow> int" where
  "days_from_civil y m d =
     (let y' = (if m \<le> 2 then y - 1 else y);
          era = y' div 400;
          yoe = y' mod 400;
          doy = (153 * (if m > 2 then m - 3 else m + 9) + 2) div 5 + d - 1;
          doe = yoe * 365 + yoe div 4 - yoe div 100 + doy
      in era * 146097 + doe - 719468)"

definition time_clip :: "int \<Rightarrow> jsdate" where
  "time_clip t = (if \<bar>t\<bar> \<le> 8640000000000000 then Instant t else InvalidDate)"

definition utc_year :: "int \<Rightarrow> int" where
  "utc_year t = fst (civil t)"

definition utc_month :: "int \<Rightarrow> int" where
  "utc_month t = fst (snd (civil t)) - 1"

definition utc_day :: "int \<Rightarrow> int" where
  "utc_day t = snd (snd (civil t))"

definition utc_make :: "int \<Rightarrow> int \<Rightarrow> int \<Rightarrow> int \<Rightarrow> jsdate" where
  "utc_make y m0 d t =
     time_clip ((days_from_civil (y + m0 div 12) (m0 mod 12 + 1) 1 + (d - 1)) * 86400000
                + t mod 86400000)"

definition pad_num :: "nat \<Rightarrow> int \<Rightarrow> string" where
  "pad_num n i = padStart n (CHR ''0'') (dec_int i)"

definition utc_iso :: "int \<Rightarrow> string" where
  "utc_iso t =
     (let y = utc_year t; ms = t mod 86400000
      in (if 0 \<le> y \<and> y \<le> 9999 then pad_num 4 y
          else (if y < 0 then ''-'' else ''+'') @ pad_num 6 \<bar>y\<bar>)
         @ ''-'' @ pad_num 2 (utc_month t + 1) @ ''-'' @ pad_num 2 (utc_day t)
         @ ''T'' @ pad_num 2 (ms div 3600000) @ '':'' @ pad_num 2 (ms div 60000 mod 60)
         @ '':'' @ pad_num 2 (ms div 1000 mod 60) @ ''.'' @ pad_num 3 (ms mod 1000) @ ''Z'')"

definition en_months :: "string list" where
  "en_months = [''January'', ''February'', ''March'', ''April'', ''May'', ''June'', ''July'',
                ''August'', ''September'', ''October'', ''November'', ''December'']"

definition iso_chrono :: "int \<Rightarrow> string \<Rightarrow> chrono_result" where
  "iso_chrono now s =
     (if length s = 10 \<and> s ! 4 = CHR ''-'' \<and> s ! 7 = CHR ''-''
         \<and> list_all is_digit (take 4 s @ take 2 (drop 5 s) @ drop 8 s)
      then Parsed (time_clip
             (days_from_civil (digits_val (take 4 s)) (digits_val (take 2 (drop 5 s)))
                (digits_val (drop 8 s)) * 86400000 + 43200000))
      else NoResult)"

definition utc_host :: host where
  "utc_host =
     \<lparr> clock = (\<lambda>k. 1710460800000 + int k),
       chrono_parseDate = iso_chrono,
       getFullYear = utc_year,
       getMonth = utc_month,
       getDate = utc_day,
       monthLong = (\<lambda>t. en_months ! nat (utc_month t)),
       monthShort = (\<lambda>t. take 3 (en_months ! nat (utc_month t))),
       toLocaleDateString =
         (\<lambda>t. pad_num 2 (utc_month t + 1) @ ''/'' @ pad_num 2 (utc_day t) @ ''/'' @ dec_int (utc_year t)),
       toISOString = utc_iso,
       setDate = (\<lambda>t n. utc_make (utc_year t) (utc_month t) n t),
       setMonth = (\<lambda>t n. utc_make (utc_year t) n (utc_day t) t),
       setFullYear = (\<lambda>t n. utc_make n (utc_month t) (utc_day t) t) \<rparr>"

section \<open>The record accessor\<close>

text \<open>
  Modelled from the spec: the record object is supplied by the hosting platform and is not
  part of the repository. Following the specification's external interface and its design
  note on the two adapters, a record is either linked (it exposes \<^verbatim>\<open>get\<close>, \<^verbatim>\<open>set\<close>,
  \<^verbatim>\<open>addError\<close> and \<^verbatim>\<open>addInfo\<close>, and \<^verbatim>\<open>get\<close> of an unknown field is \<^verbatim>\<open>undefined\<close>) or
  detached (a plain object exposing only \<^verbatim>\<open>values[field].value\<close>, as the records that
  \<^verbatim>\<open>executeTransform\<close> hands to its callbacks; calling a method on it is a TypeError).
  \<open>calls\<close> lists every write the code issues on the record, in order, including a call
  that the object then rejects; \<open>reads\<close> counts the reads of the wall clock so far.
\<close>

datatype rcall =
    CallSet string jsval
  | CallAddError string string
  | CallAddInfo string string

record world =
  reads :: nat
  linked :: bool
  vals :: "string \<Rightarrow> jsval option"
  calls :: "rcall list"

definition andThen ::
  "'a outcome \<times> world \<Rightarrow> ('a \<Rightarrow> world \<Rightarrow> 'b outcome \<times> world) \<Rightarrow> 'b outcome \<times> world" where
  "andThen m f = (case m of (Returned x, w) \<Rightarrow> f x w | (Threw e, w) \<Rightarrow> (Threw e, w))"

text \<open>
  The preamble of every validator:
  \<^verbatim>\<open>try { value = record.get(field) } catch { value = record.values[field].value; isRecordWithoutLinks = true }\<close>.
  The result is the value and the flag \<^verbatim>\<open>isRecordWithoutLinks\<close>; on a detached record
  without the field, \<^verbatim>\<open>record.values[field]\<close> is \<^verbatim>\<open>undefined\<close> and the handler itself throws.
\<close>

definition readField :: "string \<Rightarrow> world \<Rightarrow> (jsval \<times> bool) outcome" where
  "readField field w =
     (if linked w then
        Returned (case vals w field of None \<Rightarrow> JUndefined | Some v \<Rightarrow> v, False)
      else (case vals w field of None \<Rightarrow> Threw TypeError | Some v \<Rightarrow> Returned (v, True)))"

definition record_set :: "string \<Rightarrow> jsval \<Rightarrow> world \<Rightarrow> unit outcome \<times> world" where
  "record_set field v w =
     (if linked w then
        (Returned (), w\<lparr>vals := (vals w)(field \<mapsto> v), calls := calls w @ [CallSet field v]\<rparr>)
      else (Threw TypeError, w\<lparr>calls := calls w @ [CallSet field v]\<rparr>))"

definition record_addError :: "string \<Rightarrow> string \<Rightarrow> world \<Rightarrow> unit outcome \<times> world" where
  "record_addError field msg w =
     (if linked w then (Returned (), w\<lparr>calls := calls w @ [CallAddError field msg]\<rparr>)
      else (Threw TypeError, w\<lparr>calls := calls w @ [CallAddError field msg]\<rparr>))"

definition record_addInfo :: "string \<Rightarrow> string \<Rightarrow> world \<Rightarrow> unit outcome \<times> world" where
  "record_addInfo field msg w =
     (if linked w then (Returned (), w\<lparr>calls := calls w @ [CallAddInfo field msg]\<rparr>)
      else (Threw TypeError, w\<lparr>calls := calls w @ [CallAddInfo field msg]\<rparr>))"

section \<open>Options and optional arguments\<close>

text \<open>
  The options object; an absent object and an absent key both read as \<^verbatim>\<open>undefined\<close>
  through \<^verbatim>\<open>options?.key\<close>, so \<^verbatim>\<open>options = undefined\<close> is the record of \<open>None\<close>s.
\<close>

record options =
  addError :: "bool option"
  validateOnEmpty :: "bool option"
  errorMsg :: "string option"
  setRecord :: "bool option"
  addInfo :: "bool option"
  infoMsg :: "string option"
  formatOnError :: "bool option"
  formatOnEmpty :: "bool option"

definition no_options :: options where
  "no_options = \<lparr> addError = None, validateOnEmpty = None, errorMsg = None, setRecord = None,
                   addInfo = None, infoMsg = None, formatOnError = None, formatOnEmpty = None \<rparr>"

text \<open>Truthiness of an optional boolean and of an optional string; \<^verbatim>\<open>s || d\<close>.\<close>

definition opt_on :: "bool option \<Rightarrow> bool" where
  "opt_on b = (b = Some True)"

definition given :: "string option \<Rightarrow> bool" where
  "given s = (case s of None \<Rightarrow> False | Some x \<Rightarrow> x \<noteq> [])"

definition text_of :: "string option \<Rightarrow> string" where
  "text_of s = (case s of None \<Rightarrow> [] | Some x \<Rightarrow> x)"

definition str_or :: "string option \<Rightarrow> string \<Rightarrow> string" where
  "str_or s d = (if given s then text_of s else d)"

section \<open>Relative-date expressions: DateValidator.parseDateArgument (lines 505-537)\<close>

text \<open>
  The match of \<^verbatim>\<open>/^now([+-])(\d+)(days?|months?|years?)$/\<close>: the groups operation, amount
  and unit. The digits are followed by a letter, so the greedy \<^verbatim>\<open>\d+\<close> is the whole run
  of digits.
\<close>

definition match_relative :: "string \<Rightarrow> (char \<times> string \<times> string) option" where
  "match_relative s =
     (if take 3 s = ''now'' \<and> 3 < length s \<and> (s ! 3 = CHR ''+'' \<or> s ! 3 = CHR ''-'') then
        let rest = drop 4 s;
            amount = takeWhile is_digit rest;
            unit = dropWhile is_digit rest
        in if amount \<noteq> [] \<and>
              unit \<in> set [''day'', ''days'', ''month'', ''months'', ''year'', ''years'']
           then Some (s ! 3, amount, unit) else None
      else None)"

text \<open>\<^verbatim>\<open>unit.replace(/s$/, '')\<close>.\<close>

definition strip_s :: "string \<Rightarrow> string" where
  "strip_s u = (if u \<noteq> [] \<and> last u = CHR ''s'' then butlast u else u)"

text \<open>
  The result \<open>None\<close> is the source's \<^verbatim>\<open>false\<close>. The clock is read (line 508) before
  \<^verbatim>\<open>arg.toLowerCase()\<close> (line 509), which throws for a truthy argument that is not a string.
\<close>

definition parseDateArgument :: "host \<Rightarrow> jsval \<Rightarrow> world \<Rightarrow> jsdate option outcome \<times> world" where
  "parseDateArgument h arg w =
     (if \<not> truthy arg then (Returned None, w)
      else
        let now = clock h (reads w);
            w1 = w\<lparr>reads := reads w + 1\<rparr>
        in (case arg of
              JStr s \<Rightarrow>
                if toLowerCase s = ''now'' then (Returned (Some (Instant now)), w1)
                else
                  (case match_relative (toLowerCase s) of
                     Some (operation, amount, unit) \<Rightarrow>
                       let value = digits_val amount;
                           delta = (if operation = CHR ''+'' then value else - value)
                       in if strip_s unit = ''day'' then
                            (Returned (Some (setDate h now (getDate h now + delta))), w1)
                          else if strip_s unit = ''month'' then
                            (Returned (Some (setMonth h now (getMonth h now + delta))), w1)
                          else if strip_s unit = ''year'' then
                            (Returned (Some (setFullYear h now (getFullYear h now + delta))), w1)
                          else (Returned None, w1)
                   | None \<Rightarrow> (Returned None, w1))
            | _ \<Rightarrow> (Threw TypeError, w1)))"

section \<open>DateValidator.isDate and DateValidator.parseDate (lines 16-40)\<close>

text \<open>
  Both wrap the parser in \<^verbatim>\<open>try\<close>/\<^verbatim>\<open>catch\<close>. \<open>isDate\<close> also receives the bounds, which
  may be \<^verbatim>\<open>null\<close> or any other value: \<^verbatim>\<open>value.toLowerCase()\<close> then throws inside the
  \<^verbatim>\<open>try\<close> and the result is \<^verbatim>\<open>false\<close>.
\<close>

definition isDate :: "host \<Rightarrow> jsval \<Rightarrow> world \<Rightarrow> bool \<times> world" where
  "isDate h value w =
     (case value of
        JStr s \<Rightarrow>
          if match_relative (toLowerCase s) \<noteq> None then (False, w)
          else
            (case chrono_parseDate h (clock h (reads w)) s of
               Parsed d \<Rightarrow> True
             | NoResult \<Rightarrow> False
             | ChronoThrows \<Rightarrow> False,
             w\<lparr>reads := reads w + 1\<rparr>)
      | _ \<Rightarrow> (False, w))"

definition parseDate :: "host \<Rightarrow> string \<Rightarrow> world \<Rightarrow> jsdate option \<times> world" where
  "parseDate h value w =
     (case chrono_parseDate h (clock h (reads w)) value of
        Parsed d \<Rightarrow> Some d
      | NoResult \<Rightarrow> None
      | ChronoThrows \<Rightarrow> None,
      w\<lparr>reads := reads w + 1\<rparr>)"

section \<open>DateValidator.validate (lines 147-187) and DateValidator.format (lines 208-245)\<close>

definition validate ::
  "host \<Rightarrow> string \<Rightarrow> string option \<Rightarrow> options \<Rightarrow> world \<Rightarrow> bool outcome \<times> world" where
  "validate h field dateFormat options w =
     (case readField field w of
        Threw e \<Rightarrow> (Threw e, w)
      | Returned (value, isRecordWithoutLinks) \<Rightarrow>
          andThen
            (if truthy value then
               andThen (parseDateArgument h value w) (\<lambda>isParseArgument w1.
                 case isParseArgument of
                   Some d \<Rightarrow>
                     (Returned (True, formatDate h d (str_or dateFormat ''yyyy-MM-dd'')), w1)
                 | None \<Rightarrow>
                     (case isDate h (JStr (js_toString value)) w1 of
                        (False, w2) \<Rightarrow> (Returned (False, []), w2)
                      | (True, w2) \<Rightarrow>
                          (case parseDate h (js_toString value) w2 of
                             (Some parsedDate, w3) \<Rightarrow>
                               (Returned (True, formatDate h parsedDate (str_or dateFormat ''yyyy-MM-dd'')), w3)
                           | (None, w3) \<Rightarrow> (Returned (True, []), w3))))
             else (Returned (False, []), w))
            (\<lambda>(valid, formatted) w4.
               andThen
                 (if formatted \<noteq> [] then record_set field (JStr formatted) w4
                  else (Returned (), w4))
                 (\<lambda>_ w5.
                    andThen
                      (if (truthy value \<or> opt_on (validateOnEmpty options)) \<and> \<not> valid
                          \<and> opt_on (addError options) \<and> \<not> isRecordWithoutLinks
                       then record_addError field
                              (str_or (errorMsg options)
                                 (if given dateFormat
                                  then ''Please enter a valid date in the format '' @ text_of dateFormat
                                  else ''Please enter a valid date'')) w5
                       else (Returned (), w5))
                      (\<lambda>_ w6. (Returned valid, w6)))))"

definition format ::
  "host \<Rightarrow> string \<Rightarrow> string option \<Rightarrow> options \<Rightarrow> world \<Rightarrow> string outcome \<times> world" where
  "format h field dateFormat options w =
     (case readField field w of
        Threw e \<Rightarrow> (Threw e, w)
      | Returned (value, isRecordWithoutLinks) \<Rightarrow>
          andThen
            (if truthy value then
               andThen (parseDateArgument h value w) (\<lambda>isParseArgument w1.
                 case isParseArgument of
                   Some d \<Rightarrow> (Returned (formatDate h d (str_or dateFormat ''yyyy-MM-dd'')), w1)
                 | None \<Rightarrow>
                     (case parseDate h (js_toString value) w1 of
                        (Some parsedDate, w2) \<Rightarrow>
                          (Returned (formatDate h parsedDate (str_or dateFormat ''yyyy-MM-dd'')), w2)
                      | (None, w2) \<Rightarrow> (Returned [], w2)))
             else (Returned [], w))
            (\<lambda>formatted w3.
               andThen
                 (if (truthy value \<or> opt_on (formatOnEmpty options)) \<and> formatted \<noteq> []
                     \<and> opt_on (addInfo options) \<and> opt_on (setRecord options)
                     \<and> \<not> isRecordWithoutLinks
                  then record_addInfo field
                         (str_or (infoMsg options)
                            (''Value has been formatted from '' @ js_toString value)) w3
                  else (Returned (), w3))
                 (\<lambda>_ w4.
                    andThen
                      (if opt_on (setRecord options) \<and> formatted \<noteq> [] \<and> \<not> isRecordWithoutLinks
                       then record_set field (JStr formatted) w4
                       else (Returned (), w4))
                      (\<lambda>_ w5. (Returned formatted, w5)))))"

section \<open>DateValidator.before, after and between (lines 266-489)\<close>

text \<open>
  The three comparison validators repeat two blocks of code. The block that resolves a
  comparison bound (lines 280-287, 360-367, 436-443 and 446-453) is the same in all four
  places: \<open>resolveBound\<close>. The block that resolves the field's own value (lines 290-301,
  370-381 and 456-467) differs only in the guard of the immediate rewrite: \<open>before\<close> and
  \<open>between\<close> test \<^verbatim>\<open>dateFormat && !isRecordWithoutLinks\<close>, \<open>after\<close> tests \<^verbatim>\<open>dateFormat\<close>
  alone; \<open>resolveInput\<close> takes the second conjunct as \<open>guard\<close>.
\<close>

definition resolveBound :: "host \<Rightarrow> jsval \<Rightarrow> world \<Rightarrow> jsdate option outcome \<times> world" where
  "resolveBound h bound w =
     (case isDate h bound w of
        (True, w1) \<Rightarrow>
          (case parseDate h (js_toString bound) w1 of (parsed, w2) \<Rightarrow> (Returned parsed, w2))
      | (False, w1) \<Rightarrow> parseDateArgument h bound w1)"

definition resolveInput ::
  "host \<Rightarrow> string \<Rightarrow> jsval \<Rightarrow> string option \<Rightarrow> bool \<Rightarrow> world \<Rightarrow> jsdate option outcome \<times> world" where
  "resolveInput h field value dateFormat guard w =
     (case isDate h (JStr (js_toString value)) w of
        (True, w1) \<Rightarrow>
          (case parseDate h (js_toString value) w1 of (parsed, w2) \<Rightarrow> (Returned parsed, w2))
      | (False, w1) \<Rightarrow>
          andThen (parseDateArgument h value w1) (\<lambda>parsedDate w2.
            case parsedDate of
              None \<Rightarrow> (Returned None, w2)
            | Some d \<Rightarrow>
                andThen
                  (if given dateFormat \<and> guard
                   then record_set field (JStr (formatDate h d (text_of dateFormat))) w2
                   else (Returned (), w2))
                  (\<lambda>_ w3. (Returned (Some d), w3))))"

text \<open>
  \<^verbatim>\<open>a.getTime() < b.getTime()\<close>, tested only when both are non-null Dates; a comparison with
  \<^verbatim>\<open>NaN\<close> is false.
\<close>

definition time_lt :: "jsdate option \<Rightarrow> jsdate option \<Rightarrow> bool" where
  "time_lt a b = (case (a, b) of (Some (Instant x), Some (Instant y)) \<Rightarrow> x < y | _ \<Rightarrow> False)"

text \<open>
  The bound as it appears in the default error message (lines 310-312 and their copies):
  formatted, or as \<^verbatim>\<open>toISOString()\<close> (a RangeError on an Invalid Date), or the raw argument.
\<close>

definition boundText :: "host \<Rightarrow> jsdate option \<Rightarrow> jsval \<Rightarrow> string option \<Rightarrow> string outcome" where
  "boundText h resolved raw dateFormat =
     (case resolved of
        Some d \<Rightarrow>
          (if given dateFormat then Returned (formatDate h d (text_of dateFormat))
           else date_toISOString h d)
      | None \<Rightarrow> Returned (js_toString raw))"

definition before ::
  "host \<Rightarrow> string \<Rightarrow> jsval \<Rightarrow> string option \<Rightarrow> options \<Rightarrow> world \<Rightarrow> bool outcome \<times> world" where
  "before h field dateBefore dateFormat options w =
     (case readField field w of
        Threw e \<Rightarrow> (Threw e, w)
      | Returned (value, isRecordWithoutLinks) \<Rightarrow>
          andThen
            (if truthy value then
               andThen (resolveBound h dateBefore w) (\<lambda>dateBeforeFormatted w1.
                 andThen (resolveInput h field value dateFormat (\<not> isRecordWithoutLinks) w1)
                   (\<lambda>inputDate w2.
                      (Returned (dateBeforeFormatted, time_lt inputDate dateBeforeFormatted), w2)))
             else (Returned (None, False), w))
            (\<lambda>(dateBeforeFormatted, valid) w3.
               andThen
                 (if (truthy value \<or> opt_on (validateOnEmpty options)) \<and> \<not> valid
                     \<and> opt_on (addError options) \<and> \<not> isRecordWithoutLinks
                  then
                    (case boundText h dateBeforeFormatted dateBefore dateFormat of
                       Threw e \<Rightarrow> (Threw e, w3)
                     | Returned formattedDate \<Rightarrow>
                         record_addError field
                           (str_or (errorMsg options)
                              (''Please enter a valid date before '' @ formattedDate)) w3)
                  else (Returned (), w3))
                 (\<lambda>_ w4. (Returned valid, w4))))"

definition after ::
  "host \<Rightarrow> string \<Rightarrow> jsval \<Rightarrow> string option \<Rightarrow> options \<Rightarrow> world \<Rightarrow> bool outcome \<times> world" where
  "after h field dateAfter dateFormat options w =
     (case readField field w of
        Threw e \<Rightarrow> (Threw e, w)
      | Returned (value, isRecordWithoutLinks) \<Rightarrow>
          andThen
            (if truthy value then
               andThen (resolveBound h dateAfter w) (\<lambda>dateAfterFormatted w1.
                 andThen (resolveInput h field value dateFormat True w1)
                   (\<lambda>inputDate w2.
                      (Returned (dateAfterFormatted, time_lt dateAfterFormatted inputDate), w2)))
             else (Returned (None, False), w))
            (\<lambda>(dateAfterFormatted, valid) w3.
               andThen
                 (if (truthy value \<or> opt_on (validateOnEmpty options)) \<and> \<not> valid
                     \<and> opt_on (addError options) \<and> \<not> isRecordWithoutLinks
                  then
                    (case boundText h dateAfterFormatted dateAfter dateFormat of
                       Threw e \<Rightarrow> (Threw e, w3)
                     | Returned formattedDate \<Rightarrow>
                         record_addError field
                           (str_or (errorMsg options)
                              (''Please enter a valid date after '' @ formattedDate)) w3)
                  else (Returned (), w3))
                 (\<lambda>_ w4. (Returned valid, w4))))"

definition between ::
  "host \<Rightarrow> string \<Rightarrow> jsval \<Rightarrow> jsval \<Rightarrow> string option \<Rightarrow> options \<Rightarrow> world \<Rightarrow> bool outcome \<times> world" where
  "between h field dateStart dateEnd dateFormat options w =
     (case readField field w of
        Threw e \<Rightarrow> (Threw e, w)
      | Returned (value, isRecordWithoutLinks) \<Rightarrow>
          andThen
            (if truthy value then
               andThen (resolveBound h dateStart w) (\<lambda>dateStartFormatted w1.
                 andThen (resolveBound h dateEnd w1) (\<lambda>dateEndFormatted w2.
                   andThen (resolveInput h field value dateFormat (\<not> isRecordWithoutLinks) w2)
                     (\<lambda>inputDate w3.
                        (Returned (dateStartFormatted, dateEndFormatted,
                                   dateStartFormatted \<noteq> None \<and> dateEndFormatted \<noteq> None
                                   \<and> time_lt dateStartFormatted inputDate
                                   \<and> time_lt inputDate dateEndFormatted), w3))))
             else (Returned (None, None, False), w))
            (\<lambda>(dateStartFormatted, dateEndFormatted, valid) w4.
               andThen
                 (if (truthy value \<or> opt_on (validateOnEmpty options)) \<and> \<not> valid
                     \<and> opt_on (addError options) \<and> \<not> isRecordWithoutLinks
                  then
                    (case boundText h dateStartFormatted dateStart dateFormat of
                       Threw e \<Rightarrow> (Threw e, w4)
                     | Returned startFormatted \<Rightarrow>
                         (case boundText h dateEndFormatted dateEnd dateFormat of
                            Threw e \<Rightarrow> (Threw e, w4)
                          | Returned endFormatted \<Rightarrow>
                              record_addError field
                                (str_or (errorMsg options)
                                   (''Please enter a valid date between '' @ startFormatted
                                    @ '' and '' @ endFormatted)) w4))
                  else (Returned (), w4))
                 (\<lambda>_ w5. (Returned valid, w5))))"

section \<open>DateValidator.evaluateAndFormat (lines 566-612)\<close>

datatype DateValidationType = VALIDATE | BEFORE | AFTER | BETWEEN

text \<open>
  \<^verbatim>\<open>validationArgs[0]\<close>: a TypeError on \<^verbatim>\<open>undefined\<close> and \<^verbatim>\<open>null\<close>, the first element of
  an array, the first character of a string, \<^verbatim>\<open>undefined\<close> otherwise.
\<close>

definition index0 :: "jsval \<Rightarrow> jsval outcome" where
  "index0 v =
     (case v of
        JUndefined \<Rightarrow> Threw TypeError
      | JNull \<Rightarrow> Threw TypeError
      | JArr xs \<Rightarrow> Returned (case xs of [] \<Rightarrow> JUndefined | x # _ \<Rightarrow> x)
      | JStr s \<Rightarrow> Returned (case s of [] \<Rightarrow> JUndefined | c # _ \<Rightarrow> JStr [c])
      | _ \<Rightarrow> Returned JUndefined)"

text \<open>Lines 593-598: the two bounds handed to \<open>between\<close>.\<close>

definition betweenArgs :: "jsval \<Rightarrow> jsval \<times> jsval" where
  "betweenArgs validationArgs =
     (case validationArgs of
        JArr xs \<Rightarrow> if length xs = 2 then (xs ! 0, xs ! 1) else (JNull, JNull)
      | _ \<Rightarrow> (JNull, JNull))"

text \<open>Lines 607-611: the finishing step after the selected validator has returned.\<close>

definition thenFormat ::
  "host \<Rightarrow> string \<Rightarrow> string option \<Rightarrow> options \<Rightarrow> bool \<Rightarrow> world \<Rightarrow> bool outcome \<times> world" where
  "thenFormat h field dateFormat options isValid w =
     (if isValid \<or> opt_on (formatOnError options) then
        andThen (format h field dateFormat options w) (\<lambda>_ w1. (Returned isValid, w1))
      else (Returned isValid, w))"

definition evaluateAndFormat ::
  "host \<Rightarrow> string \<Rightarrow> DateValidationType \<Rightarrow> string option \<Rightarrow> jsval \<Rightarrow> options \<Rightarrow> world
   \<Rightarrow> bool outcome \<times> world" where
  "evaluateAndFormat h field validationType dateFormat validationArgs options w =
     andThen
       (case validationType of
          BEFORE \<Rightarrow>
            (case index0 validationArgs of
               Threw e \<Rightarrow> (Threw e, w)
             | Returned arg \<Rightarrow> before h field arg dateFormat options w)
        | AFTER \<Rightarrow>
            (case index0 validationArgs of
               Threw e \<Rightarrow> (Threw e, w)
             | Returned arg \<Rightarrow> after h field arg dateFormat options w)
        | BETWEEN \<Rightarrow>
            (case betweenArgs validationArgs of
               (arg1, arg2) \<Rightarrow> between h field arg1 arg2 dateFormat options w)
        | VALIDATE \<Rightarrow> validate h field dateFormat options w)
       (thenFormat h field dateFormat options)"

section \<open>StringValidator.matchesPattern and StringValidator.isSSN\<close>

text \<open>
  The options of the string validators; \<^verbatim>\<open>preprocessedValue\<close> is declared by
  \<open>matchesPattern\<close> (line 162) and documented as the value to test instead of the raw one.
\<close>

record pattern_options =
  p_addError :: "bool option"
  p_validateOnEmpty :: "bool option"
  p_errorMsg :: "string option"
  p_preprocessedValue :: "string option"

text \<open>
  The read of lines 166-171 and 286-291: \<^verbatim>\<open>record.get(field)?.toString() || ''\<close> on the
  primary path, the raw stored value on the secondary one.
\<close>

definition readText :: "string \<Rightarrow> world \<Rightarrow> (jsval \<times> bool) outcome" where
  "readText field w =
     (if linked w then
        Returned
          (case vals w field of
             None \<Rightarrow> JStr []
           | Some v \<Rightarrow> if v = JUndefined \<or> v = JNull then JStr [] else JStr (js_toString v),
           False)
      else (case vals w field of None \<Rightarrow> Threw TypeError | Some v \<Rightarrow> Returned (v, True)))"

text \<open>
  A regular expression is what \<^verbatim>\<open>pattern.test\<close> answers on a string (the patterns used
  have no \<^verbatim>\<open>g\<close> or \<^verbatim>\<open>y\<close> flag, so \<^verbatim>\<open>test\<close> has no state); \<^verbatim>\<open>test\<close> converts its argument
  to a string.
\<close>

definition matchesPattern ::
  "string \<Rightarrow> (string \<Rightarrow> bool) \<Rightarrow> pattern_options \<Rightarrow> world \<Rightarrow> bool outcome \<times> world" where
  "matchesPattern field pattern options w =
     (case readText field w of
        Threw e \<Rightarrow> (Threw e, w)
      | Returned (value, isRecordWithoutLinks) \<Rightarrow>
          (let valid = (if truthy value then pattern (js_toString value) else False)
           in andThen
                (if (truthy value \<or> opt_on (p_validateOnEmpty options)) \<and> \<not> valid
                    \<and> opt_on (p_addError options) \<and> \<not> isRecordWithoutLinks
                 then record_addError field
                        (str_or (p_errorMsg options) ''Value does not match the required pattern'') w
                 else (Returned (), w))
                (\<lambda>_ w1. (Returned valid, w1))))"

text \<open>
  \<^verbatim>\<open>/^(?!000|666|9\d{2})\d{3}(?!00)\d{2}(?!0000)\d{4}$/\<close>: nine digits and nothing else, the
  first three not \<^verbatim>\<open>000\<close>, not \<^verbatim>\<open>666\<close> and not starting with \<^verbatim>\<open>9\<close>, the next two not
  \<^verbatim>\<open>00\<close>, the last four not \<^verbatim>\<open>0000\<close>.
\<close>

definition ssnPattern :: "string \<Rightarrow> bool" where
  "ssnPattern s =
     (length s = 9 \<and> list_all is_digit s
      \<and> take 3 s \<noteq> ''000'' \<and> take 3 s \<noteq> ''666'' \<and> take 1 s \<noteq> ''9''
      \<and> take 2 (drop 3 s) \<noteq> ''00''
      \<and> drop 5 s \<noteq> ''0000'')"

text \<open>
  Line 292, \<^verbatim>\<open>value.replace(/\D/g, '')\<close>: on the secondary path the value is the raw
  stored one, and \<^verbatim>\<open>replace\<close> exists on strings only.
\<close>

definition digitsOnly :: "jsval \<Rightarrow> string outcome" where
  "digitsOnly value = (case value of JStr s \<Rightarrow> Returned (filter is_digit s) | _ \<Rightarrow> Threw TypeError)"

definition isSSN :: "string \<Rightarrow> pattern_options \<Rightarrow> world \<Rightarrow> bool outcome \<times> world" where
  "isSSN field options w =
     (case readText field w of
        Threw e \<Rightarrow> (Threw e, w)
      | Returned (value, isRecordWithoutLinks) \<Rightarrow>
          (case digitsOnly value of
             Threw e \<Rightarrow> (Threw e, w)
           | Returned digits \<Rightarrow>
               matchesPattern field ssnPattern
                 (options\<lparr> p_errorMsg :=
                             Some (str_or (p_errorMsg options)
                                     ''Please enter a valid Social Security Number''),
                           p_preprocessedValue := Some digits \<rparr>)
                 w))"

section \<open>Example records\<close>

text \<open>
  A linked record whose field \<^verbatim>\<open>d\<close> holds a relative-date expression, and a detached one
  (no \<^verbatim>\<open>get\<close>, only \<^verbatim>\<open>values\<close>) holding the same text in \<^verbatim>\<open>dob\<close>.
\<close>

definition rel_world :: world where
  "rel_world = \<lparr> reads = 0, linked = True, vals = [''d'' \<mapsto> JStr ''now+5days''], calls = [] \<rparr>"

definition detached_world :: world where
  "detached_world =
     \<lparr> reads = 0, linked = False, vals = [''dob'' \<mapsto> JStr ''now+5days''], calls = [] \<rparr>"

text \<open>Linked records whose field \<^verbatim>\<open>d\<close> is empty, and holds a text that is no date.\<close>

definition empty_world :: world where
  "empty_world = \<lparr> reads = 0, linked = True, vals = [''d'' \<mapsto> JStr ''''], calls = [] \<rparr>"

definition banana_world :: world where
  "banana_world = \<lparr> reads = 0, linked = True, vals = [''d'' \<mapsto> JStr ''banana''], calls = [] \<rparr>"

text \<open>
  The options of a string validator called without options, and a linked record with a
  hyphenated and a plain social security number.
\<close>

definition no_pattern_options :: pattern_options where
  "no_pattern_options =
     \<lparr> p_addError = None, p_validateOnEmpty = None, p_errorMsg = None, p_preprocessedValue = None \<rparr>"

definition ssn_world :: world where
  "ssn_world =
     \<lparr> reads = 0, linked = True,
       vals = [''ssn'' \<mapsto> JStr ''123-45-6789'', ''plain'' \<mapsto> JStr ''123456789''],
       calls = [] \<rparr>"

section \<open>Observations on the call log\<close>

text \<open>
  Two tests on a logged call, used to state what a validator wrote: the call is a
  \<^verbatim>\<open>record.set\<close>; the call, if a \<^verbatim>\<open>record.set\<close>, stores a non-empty string.
\<close>

definition is_set_call :: "rcall \<Rightarrow> bool" where
  "is_set_call c = (case c of CallSet f v \<Rightarrow> True | _ \<Rightarrow> False)"

definition nonempty_write :: "rcall \<Rightarrow> bool" where
  "nonempty_write c =
     (case c of CallSet f v \<Rightarrow> (case v of JStr s \<Rightarrow> s \<noteq> [] | _ \<Rightarrow> False) | _ \<Rightarrow> True)"

section \<open>What the parsing steps leave untouched\<close>

lemma parseDateArgument_frame:
  "linked (snd (parseDateArgument h a w)) = linked w \<and>
   vals (snd (parseDateArgument h a w)) = vals w \<and>
   calls (snd (parseDateArgument h a w)) = calls w"
  by (simp add: parseDateArgument_def Let_def split: jsval.splits option.splits prod.splits)

lemma isDate_frame:
  "linked (snd (isDate h a w)) = linked w \<and>
   vals (snd (isDate h a w)) = vals w \<and>
   calls (snd (isDate h a w)) = calls w"
  by (simp add: isDate_def split: jsval.splits)

lemma parseDate_frame:
  "linked (snd (parseDate h s w)) = linked w \<and>
   vals (snd (parseDate h s w)) = vals w \<and>
   calls (snd (parseDate h s w)) = calls w"
  by (simp add: parseDate_def)

lemma resolveBound_frame:
  "linked (snd (resolveBound h a w)) = linked w \<and>
   vals (snd (resolveBound h a w)) = vals w \<and>
   calls (snd (resolveBound h a w)) = calls w"
  using isDate_frame [of h a w] parseDate_frame [of h "js_toString a" "snd (isDate h a w)"]
    parseDateArgument_frame [of h a "snd (isDate h a w)"]
  by (auto simp: resolveBound_def split: prod.splits bool.splits)

lemma resolveInput_linked:
  "linked (snd (resolveInput h f v df g w)) = linked w"
  using isDate_frame [of h "JStr (js_toString v)" w]
    parseDate_frame [of h "js_toString v" "snd (isDate h (JStr (js_toString v)) w)"]
    parseDateArgument_frame [of h v "snd (isDate h (JStr (js_toString v)) w)"]
  by (auto simp: resolveInput_def andThen_def record_set_def
      split: prod.splits bool.splits outcome.splits option.splits)

lemmas frames = parseDateArgument_frame isDate_frame parseDate_frame

lemma parseDateArgument_keeps:
  "parseDateArgument h a w = (r, w') \<Longrightarrow> linked w' = linked w \<and> vals w' = vals w \<and> calls w' = calls w"
  using parseDateArgument_frame [of h a w] by simp

lemma isDate_keeps:
  "isDate h a w = (r, w') \<Longrightarrow> linked w' = linked w \<and> vals w' = vals w \<and> calls w' = calls w"
  using isDate_frame [of h a w] by simp

lemma parseDate_keeps:
  "parseDate h a w = (r, w') \<Longrightarrow> linked w' = linked w \<and> vals w' = vals w \<and> calls w' = calls w"
  using parseDate_frame [of h a w] by simp

lemma resolveBound_keeps:
  "resolveBound h a w = (r, w') \<Longrightarrow> linked w' = linked w \<and> vals w' = vals w \<and> calls w' = calls w"
  using resolveBound_frame [of h a w] by simp

lemma readField_flag: "readField f w = Returned (v, nl) \<Longrightarrow> nl = (\<not> linked w)"
  by (auto simp: readField_def split: if_splits option.splits)

section \<open>Relative-date expressions are resolved by the evaluator only\<close>

lemma match_relative_shape:
  assumes "match_relative x = Some (operation, amount, unit)"
  shows "x \<noteq> [] \<and> x \<noteq> ''now'' \<and>
         (strip_s unit = ''day'' \<or> strip_s unit = ''month'' \<or> strip_s unit = ''year'')"
proof -
  from assms have len: "3 < length x"
    and u: "unit \<in> set [''day'', ''days'', ''month'', ''months'', ''year'', ''years'']"
    by (auto simp: match_relative_def Let_def split: if_splits)
  from u have "strip_s unit = ''day'' \<or> strip_s unit = ''month'' \<or> strip_s unit = ''year''"
    by (auto simp: strip_s_def)
  with len show ?thesis by auto
qed

lemma toLowerCase_Nil: "toLowerCase s = [] \<longleftrightarrow> s = []"
  by (simp add: toLowerCase_def)

lemma parseDateArgument_relative:
  assumes "match_relative (toLowerCase s) \<noteq> None"
  shows "\<exists>d. parseDateArgument h (JStr s) w = (Returned (Some d), w\<lparr>reads := reads w + 1\<rparr>)"
proof -
  from assms obtain operation amount unit
    where m: "match_relative (toLowerCase s) = Some (operation, amount, unit)"
    by (cases "match_relative (toLowerCase s)") auto
  from match_relative_shape [OF m] have "s \<noteq> []" and "toLowerCase s \<noteq> ''now''"
    and "strip_s unit = ''day'' \<or> strip_s unit = ''month'' \<or> strip_s unit = ''year''"
    by (auto simp: toLowerCase_Nil)
  then show ?thesis
    by (auto simp: parseDateArgument_def m Let_def)
qed

lemma parseDateArgument_days:
  assumes "match_relative (toLowerCase s) = Some (operation, amount, unit)"
    and "strip_s unit = ''day''"
  shows "parseDateArgument h (JStr s) w =
     (Returned (Some (setDate h (clock h (reads w))
        (getDate h (clock h (reads w))
         + (if operation = CHR ''+'' then digits_val amount else - digits_val amount)))),
      w\<lparr>reads := reads w + 1\<rparr>)"
  using match_relative_shape [OF assms(1)] assms
  by (auto simp: parseDateArgument_def Let_def toLowerCase_Nil)

lemma isDate_relative:
  "match_relative (toLowerCase s) \<noteq> None \<Longrightarrow> isDate h (JStr s) w = (False, w)"
  by (simp add: isDate_def)

lemma resolveBound_relative:
  "match_relative (toLowerCase s) \<noteq> None \<Longrightarrow>
   resolveBound h (JStr s) w = parseDateArgument h (JStr s) w"
  by (simp add: resolveBound_def isDate_relative)

lemma resolveInput_relative:
  "match_relative (toLowerCase s) \<noteq> None \<Longrightarrow>
   resolveInput h field (JStr s) dateFormat guard w =
     andThen (parseDateArgument h (JStr s) w) (\<lambda>parsedDate w2.
       case parsedDate of
         None \<Rightarrow> (Returned None, w2)
       | Some d \<Rightarrow>
           andThen
             (if given dateFormat \<and> guard
              then record_set field (JStr (formatDate h d (text_of dateFormat))) w2
              else (Returned (), w2))
             (\<lambda>_ w3. (Returned (Some d), w3)))"
  by (simp add: resolveInput_def isDate_relative)

lemma parseDateArgument_unparsable:
  assumes "toLowerCase s \<noteq> ''now''" and "match_relative (toLowerCase s) = None" and "s \<noteq> []"
  shows "parseDateArgument h (JStr s) u = (Returned None, u\<lparr>reads := reads u + 1\<rparr>)"
  using assms by (simp add: parseDateArgument_def Let_def)

lemma parseDateArgument_text:
  "\<exists>r. parseDateArgument h (JStr s) w = (Returned r, w\<lparr>reads := reads w + (if s = [] then 0 else 1)\<rparr>)"
  by (simp add: parseDateArgument_def Let_def split: option.splits)

section \<open>Evaluations on the example host\<close>

lemma now_plus_1: "match_relative (toLowerCase ''now+1days'') = Some (CHR ''+'', ''1'', ''days'')"
  by code_simp

lemma now_plus_5: "match_relative (toLowerCase ''now+5days'') = Some (CHR ''+'', ''5'', ''days'')"
  by code_simp

lemma now_plus_9: "match_relative (toLowerCase ''now+9days'') = Some (CHR ''+'', ''9'', ''days'')"
  by code_simp

lemma strip_days: "strip_s ''days'' = ''day''"
  by code_simp

lemma digits_159: "digits_val ''1'' = 1" "digits_val ''5'' = 5" "digits_val ''9'' = 9"
  by code_simp+

lemma utc_clock: "clock utc_host k = 1710460800000 + int k"
  by (simp add: utc_host_def)

lemma utc_plus_days:
  "setDate utc_host (1710460800000 + 0) (getDate utc_host (1710460800000 + 0) + 1) = Instant 1710547200000"
  "setDate utc_host (1710460800000 + 1) (getDate utc_host (1710460800000 + 1) + 9) = Instant 1711238400001"
  "setDate utc_host (1710460800000 + 2) (getDate utc_host (1710460800000 + 2) + 5) = Instant 1710892800002"
  by code_simp+

lemma utc_plus_days_more:
  "setDate utc_host (1710460800000 + 0) (getDate utc_host (1710460800000 + 0) + 9) = Instant 1711238400000"
  "setDate utc_host (1710460800000 + 1) (getDate utc_host (1710460800000 + 1) + 5) = Instant 1710892800001"
  "setDate utc_host (1710460800000 + 0) (getDate utc_host (1710460800000 + 0) + 5) = Instant 1710892800000"
  by code_simp+

lemma utc_third:
  "setDate utc_host (1710460800000 + 2) (getDate utc_host (1710460800000 + 2) + 5) = Instant 1710892800002"
  "formatDate utc_host (Instant 1710892800002) ''MM/DD/YYYY'' = ''03/20/2024''"
  by code_simp+

lemma utc_formats:
  "formatDate utc_host (Instant 1710892800000) ''yyyy-MM-dd'' = ''2024-03-20''"
  "formatDate utc_host (Instant 1710892800001) ''MM/DD/YYYY'' = ''03/20/2024''"
  by code_simp+

lemma rel_read: "readField ''d'' rel_world = Returned (JStr ''now+5days'', False)"
  by (simp add: readField_def rel_world_def)

lemma rel_linked: "linked rel_world"
  by (simp add: rel_world_def)

lemma rel_bound_1:
  "resolveBound utc_host (JStr ''now+1days'') rel_world
   = (Returned (Some (Instant 1710547200000)), rel_world\<lparr>reads := 1\<rparr>)"
  using utc_plus_days(1)
  by (simp add: resolveBound_relative now_plus_1 parseDateArgument_days [OF now_plus_1 strip_days]
      digits_159 utc_clock rel_world_def)

lemma rel_bound_9:
  "resolveBound utc_host (JStr ''now+9days'') (rel_world\<lparr>reads := 1\<rparr>)
   = (Returned (Some (Instant 1711238400001)), rel_world\<lparr>reads := 2\<rparr>)"
  using utc_plus_days(2)
  by (simp add: resolveBound_relative now_plus_9 parseDateArgument_days [OF now_plus_9 strip_days]
      digits_159 utc_clock rel_world_def)

lemma rel_input_5:
  "resolveInput utc_host ''d'' (JStr ''now+5days'') None g (rel_world\<lparr>reads := 2\<rparr>)
   = (Returned (Some (Instant 1710892800002)), rel_world\<lparr>reads := 3\<rparr>)"
  using utc_plus_days(3)
  by (simp add: resolveInput_relative now_plus_5 parseDateArgument_days [OF now_plus_5 strip_days]
      digits_159 utc_clock rel_world_def andThen_def given_def)

lemma rel_bound_9_first:
  "resolveBound utc_host (JStr ''now+9days'') (w\<lparr>reads := 0\<rparr>)
   = (Returned (Some (Instant 1711238400000)), w\<lparr>reads := 1\<rparr>)"
  using utc_plus_days_more(1)
  by (simp add: resolveBound_relative now_plus_9 parseDateArgument_days [OF now_plus_9 strip_days]
      digits_159 utc_clock)

lemma rel_bound_1_first:
  "resolveBound utc_host (JStr ''now+1days'') (w\<lparr>reads := 0\<rparr>)
   = (Returned (Some (Instant 1710547200000)), w\<lparr>reads := 1\<rparr>)"
  using utc_plus_days(1)
  by (simp add: resolveBound_relative now_plus_1 parseDateArgument_days [OF now_plus_1 strip_days]
      digits_159 utc_clock)

lemma rel_parse_5_first:
  "parseDateArgument utc_host (JStr ''now+5days'') (w\<lparr>reads := 0\<rparr>)
   = (Returned (Some (Instant 1710892800000)), w\<lparr>reads := 1\<rparr>)"
  using utc_plus_days_more(3)
  by (simp add: parseDateArgument_days [OF now_plus_5 strip_days] digits_159 utc_clock)

lemma rel_parse_5_second:
  "parseDateArgument utc_host (JStr ''now+5days'') (w\<lparr>reads := 1\<rparr>)
   = (Returned (Some (Instant 1710892800001)), w\<lparr>reads := 2\<rparr>)"
  using utc_plus_days_more(2)
  by (simp add: parseDateArgument_days [OF now_plus_5 strip_days] digits_159 utc_clock)

lemma rel_parse_5_third:
  "parseDateArgument utc_host (JStr ''now+5days'') (w\<lparr>reads := 2\<rparr>)
   = (Returned (Some (Instant 1710892800002)), w\<lparr>reads := 3\<rparr>)"
  using utc_third(1)
  by (simp add: parseDateArgument_days [OF now_plus_5 strip_days] digits_159 utc_clock)

lemma rel_input_5_second:
  "resolveInput utc_host ''d'' (JStr ''now+5days'') None g (w\<lparr>reads := 1\<rparr>)
   = (Returned (Some (Instant 1710892800001)), w\<lparr>reads := 2\<rparr>)"
  using rel_parse_5_second [of w]
  by (simp add: resolveInput_relative now_plus_5 andThen_def given_def)

lemma det_linked: "linked detached_world = False"
  by (simp add: detached_world_def)

lemma det_calls: "calls detached_world = []"
  by (simp add: detached_world_def)

lemma det_zero: "detached_world\<lparr>reads := 0\<rparr> = detached_world"
  by (simp add: detached_world_def)

lemma det_read: "readField ''dob'' detached_world = Returned (JStr ''now+5days'', True)"
  by (simp add: readField_def detached_world_def)

lemma banana_facts:
  "toLowerCase ''banana'' \<noteq> ''now''"
  "match_relative (toLowerCase ''banana'') = None"
  by code_simp+

lemma banana_chrono: "chrono_parseDate utc_host t ''banana'' = NoResult"
  by (simp add: utc_host_def iso_chrono_def)

lemma ssn_examples: "ssnPattern ''123456789''" "list_ex (\<lambda>c. \<not> is_digit c) ''123-45-6789''"
  by code_simp+

section \<open>Writes of validate and format\<close>

lemma validate_writes:
  "list_all nonempty_write (drop (length (calls u)) (calls (snd (validate h f df opts u))))"
  by (simp add: validate_def andThen_def split_beta frames record_set_def record_addError_def
      nonempty_write_def
      split: outcome.splits option.splits bool.splits)

lemma format_writes:
  "list_all nonempty_write (drop (length (calls u)) (calls (snd (format h f df opts u))))"
  by (simp add: format_def andThen_def split_beta frames record_set_def record_addInfo_def
      nonempty_write_def
      split: outcome.splits option.splits bool.splits)

section \<open>Null bounds\<close>

lemma resolveBound_null: "resolveBound h JNull w = (Returned None, w)"
  by (simp add: resolveBound_def isDate_def parseDateArgument_def)

lemma betweenArgs_malformed:
  "\<forall>xs. validationArgs = JArr xs \<longrightarrow> length xs \<noteq> 2 \<Longrightarrow> betweenArgs validationArgs = (JNull, JNull)"
  by (cases validationArgs) (simp_all add: betweenArgs_def)

lemma between_null_not_true: "fst (between h f JNull JNull df opts w) \<noteq> Returned True"
  by (simp add: between_def andThen_def split_beta resolveBound_null
      split: outcome.splits)

lemma thenFormat_false: "fst (thenFormat h f df opts False w) \<noteq> Returned True"
  by (simp add: thenFormat_def andThen_def split_beta split: outcome.splits)

lemma evaluate_between_never_true:
  assumes "betweenArgs validationArgs = (JNull, JNull)"
  shows "fst (evaluateAndFormat h f BETWEEN df validationArgs opts u) \<noteq> Returned True"
proof (cases "between h f JNull JNull df opts u")
  case (Pair r u')
  show ?thesis
  proof (cases r)
    case (Returned b)
    with Pair between_null_not_true [of h f df opts u] have "b = False"
      by simp
    with Pair Returned assms thenFormat_false [of h f df opts u'] show ?thesis
      by (simp add: evaluateAndFormat_def andThen_def)
  next
    case (Threw e)
    with Pair assms show ?thesis
      by (simp add: evaluateAndFormat_def andThen_def)
  qed
qed

lemma resolveInput_text:
  assumes "g \<longrightarrow> linked w"
  shows "\<exists>r w'. resolveInput h f (JStr s) df g w = (Returned r, w')
           \<and> linked w' = linked w
           \<and> (vals w' f = vals w f \<or> (\<exists>t. vals w' f = Some (JStr t)))"
proof (cases "isDate h (JStr s) w")
  case (Pair b w1)
  note i = isDate_keeps [OF Pair]
  show ?thesis
  proof (cases b)
    case True
    with Pair i parseDate_frame [of h s w1] show ?thesis
      by (simp add: resolveInput_def split_beta)
  next
    case False
    obtain r where p: "parseDateArgument h (JStr s) w1
        = (Returned r, w1\<lparr>reads := reads w1 + (if s = [] then 0 else 1)\<rparr>)"
      using parseDateArgument_text [of h s w1] by blast
    from False Pair i p assms show ?thesis
      by (cases r) (auto simp: resolveInput_def andThen_def record_set_def)
  qed
qed

lemma format_returns:
  assumes "readField f w = Returned (v, nl)" and "truthy v \<longrightarrow> (\<exists>s. v = JStr s)"
  shows "\<exists>x w'. format h f df opts w = (Returned x, w')"
proof (cases "truthy v")
  case False
  with assms(1) readField_flag [OF assms(1)] show ?thesis
    by (simp add: format_def andThen_def record_addInfo_def record_set_def)
next
  case True
  with assms(2) obtain s where s: "v = JStr s" by blast
  obtain r where p: "parseDateArgument h (JStr s) w
      = (Returned r, w\<lparr>reads := reads w + (if s = [] then 0 else 1)\<rparr>)"
    using parseDateArgument_text [of h s w] by blast
  from True s assms(1) readField_flag [OF assms(1)] p show ?thesis
    by (cases r)
      (auto simp: format_def andThen_def record_addInfo_def record_set_def parseDate_def
        split: chrono_result.splits)
qed

lemma between_null_returns:
  assumes "readField f w = Returned (v, nl)" and "truthy v \<longrightarrow> (\<exists>s. v = JStr s)"
  shows "\<exists>w'. between h f JNull JNull df opts w = (Returned False, w')
           \<and> linked w' = linked w
           \<and> (vals w' f = vals w f \<or> (\<exists>t. vals w' f = Some (JStr t)))"
proof (cases "truthy v")
  case False
  with assms(1) readField_flag [OF assms(1)] show ?thesis
    by (simp add: between_def andThen_def boundText_def record_addError_def)
next
  case True
  with assms(2) obtain s where s: "v = JStr s" by blast
  have "\<not> nl \<longrightarrow> linked w"
    using readField_flag [OF assms(1)] by simp
  from resolveInput_text [OF this, of h f s df]
  obtain r w1 where ri: "resolveInput h f (JStr s) df (\<not> nl) w = (Returned r, w1)"
    and l: "linked w1 = linked w"
    and vs: "vals w1 f = vals w f \<or> (\<exists>t. vals w1 f = Some (JStr t))"
    by blast
  from True s assms(1) readField_flag [OF assms(1)] ri l vs show ?thesis
    by (auto simp: between_def andThen_def resolveBound_null boundText_def record_addError_def)
qed

section \<open>The string validator\<close>

lemma readText_flag: "readText f w = Returned (v, nl) \<Longrightarrow> nl = (\<not> linked w)"
  by (auto simp: readText_def split: if_splits option.splits)

lemma matchesPattern_ignores_preprocessed:
  "matchesPattern f pattern (opts\<lparr>p_preprocessedValue := x\<rparr>) u = matchesPattern f pattern opts u"
  by (simp add: matchesPattern_def Let_def split: outcome.splits prod.splits)

lemma ssnPattern_digits: "ssnPattern s \<Longrightarrow> list_all is_digit s"
  by (simp add: ssnPattern_def)

section \<open>Rendered dates are not empty, string bounds do not throw\<close>

lemma join_three_nonempty: "sep \<noteq> [] \<Longrightarrow> length xs = 3 \<Longrightarrow> join sep xs \<noteq> []"
  by (auto simp: numeral_3_eq_3 length_Suc_conv)

lemma formatDate_nonempty: "dateFormat \<noteq> [] \<Longrightarrow> formatDate h d dateFormat \<noteq> []"
  by (simp add: formatDate_def Let_def join_three_nonempty)

lemma str_or_nonempty: "d \<noteq> [] \<Longrightarrow> str_or s d \<noteq> []"
  by (cases s) (simp_all add: str_or_def given_def text_of_def)

lemma resolveBound_text:
  "\<exists>r w'. resolveBound h (JStr b) w = (Returned r, w') \<and> linked w' = linked w"
proof (cases "isDate h (JStr b) w")
  case (Pair t w1)
  note i = isDate_keeps [OF Pair]
  show ?thesis
  proof (cases t)
    case True
    with Pair i parseDate_frame [of h b w1] show ?thesis
      by (simp add: resolveBound_def split_beta)
  next
    case False
    obtain r where "parseDateArgument h (JStr b) w1
        = (Returned r, w1\<lparr>reads := reads w1 + (if b = [] then 0 else 1)\<rparr>)"
      using parseDateArgument_text [of h b w1] by blast
    with False Pair i show ?thesis
      by (simp add: resolveBound_def)
  qed
qed

section \<open>Verdicts of calls on a linked record, and of calls that return\<close>

lemma relative_validates_when_linked:
  assumes "match_relative (toLowerCase s) \<noteq> None"
    and "linked w" and "vals w field = Some (JStr s)"
  shows "fst (isDate h (JStr s) u) = False
       \<and> (\<exists>d. fst (parseDateArgument h (JStr s) w) = Returned (Some d))
       \<and> fst (validate h field dateFormat options w) = Returned True
       \<and> (\<forall>x. fst (isDate h (JStr x) u)
              = (match_relative (toLowerCase x) = None
                 \<and> (\<exists>d. chrono_parseDate h (clock h (reads u)) x = Parsed d)))"
proof -
  obtain d where p: "parseDateArgument h (JStr s) w = (Returned (Some d), w\<lparr>reads := reads w + 1\<rparr>)"
    using parseDateArgument_relative [OF assms(1)] by blast
  from assms(1) have "s \<noteq> []"
    by (auto simp: match_relative_def toLowerCase_def split: if_splits)
  then have v: "fst (validate h field dateFormat options w) = Returned True"
    using assms(2,3) p
    by (simp add: validate_def readField_def andThen_def record_set_def)
  have i: "fst (isDate h (JStr x) u)
           = (match_relative (toLowerCase x) = None
              \<and> (\<exists>d. chrono_parseDate h (clock h (reads u)) x = Parsed d))" for x
    by (cases "match_relative (toLowerCase x)") (auto simp: isDate_def split: chrono_result.splits)
  from p have "\<exists>d. fst (parseDateArgument h (JStr s) w) = Returned (Some d)"
    by simp
  with v i assms(1) show ?thesis
    by (simp add: isDate_relative)
qed

lemma strict_verdicts_when_returned:
  assumes "truthy value"
    and "readField field wb = Returned (value, nlb)"
    and "resolveBound h bound wb = (Returned (Some (Instant tb)), wb1)"
    and "resolveInput h field value dateFormat (\<not> nlb) wb1 = (Returned (Some (Instant tv)), wb2)"
    and "readField field wa = Returned (value, nla)"
    and "resolveBound h bound wa = (Returned (Some (Instant tb)), wa1)"
    and "resolveInput h field value dateFormat True wa1 = (Returned (Some (Instant tv)), wa2)"
  shows "fst (before h field bound dateFormat options wb) = Returned (tv < tb)
       \<and> fst (after h field bound dateFormat options wa) = Returned (tb < tv)
       \<and> \<not> (fst (before h field bound dateFormat options wb) = Returned True
            \<and> fst (after h field bound dateFormat options wa) = Returned True)"
proof -
  have "linked wb2 = linked wb"
    using resolveBound_frame [of h bound wb] resolveInput_linked [of h field "value" dateFormat "\<not> nlb" wb1]
      assms(3,4) by simp
  then have nlb: "nlb = (\<not> linked wb2)"
    using readField_flag [OF assms(2)] by simp
  have "linked wa2 = linked wa"
    using resolveBound_frame [of h bound wa] resolveInput_linked [of h field "value" dateFormat True wa1]
      assms(6,7) by simp
  then have nla: "nla = (\<not> linked wa2)"
    using readField_flag [OF assms(5)] by simp
  have b: "fst (before h field bound dateFormat options wb) = Returned (tv < tb)"
    using assms(1-4) nlb
    by (simp add: before_def andThen_def time_lt_def boundText_def date_toISOString_def
        record_addError_def)
  have a: "fst (after h field bound dateFormat options wa) = Returned (tb < tv)"
    using assms(1,5-7) nla
    by (simp add: after_def andThen_def time_lt_def boundText_def date_toISOString_def
        record_addError_def)
  from a b show ?thesis by auto
qed

section \<open>The claims\<close>

text \<open>
  C1. When the field value and both bound strings resolve to Date Values with millisecond
  times \<open>tv\<close>, \<open>ts\<close> and \<open>te\<close>, \<open>between\<close> returns, and its verdict is exactly
  \<open>ts < tv \<and> tv < te\<close>: the interval is open, so the verdict is false when \<open>tv = ts\<close>,
  when \<open>tv = te\<close>, and whenever \<open>ts = te\<close>.
\<close>

theorem between_open_interval:
  assumes "readField field w = Returned (value, nl)" and "truthy value"
    and "resolveBound h (JStr s) w = (Returned (Some (Instant ts)), w1)"
    and "resolveBound h (JStr e) w1 = (Returned (Some (Instant te)), w2)"
    and "resolveInput h field value dateFormat (\<not> nl) w2 = (Returned (Some (Instant tv)), w3)"
  shows "fst (between h field (JStr s) (JStr e) dateFormat options w) = Returned (ts < tv \<and> tv < te)"
proof -
  have l1: "linked w1 = linked w"
    using resolveBound_frame [of h "JStr s" w] assms(3) by simp
  have l2: "linked w2 = linked w1"
    using resolveBound_frame [of h "JStr e" w1] assms(4) by simp
  have l3: "linked w3 = linked w2"
    using resolveInput_linked [of h field "value" dateFormat "\<not> nl" w2] assms(5) by simp
  have nl: "nl = (\<not> linked w3)"
    using readField_flag [OF assms(1)] l1 l2 l3 by simp
  show ?thesis
    using assms nl
    by (simp add: between_def andThen_def time_lt_def boundText_def date_toISOString_def
        record_addError_def)
qed

theorem between_open_interval_witness:
  "fst (between utc_host ''d'' (JStr ''now+1days'') (JStr ''now+9days'') None no_options rel_world)
   = Returned True"
proof -
  have t: "truthy (JStr ''now+5days'')"
    by simp
  show ?thesis
    using between_open_interval [OF rel_read t rel_bound_1 rel_bound_9 rel_input_5, of no_options]
    by simp
qed

text \<open>
  C2. The claim is that no exception escapes any public entry point, whatever the shape of
  the validation arguments. The dispatch for \<^verbatim>\<open>before\<close> (and \<^verbatim>\<open>after\<close>) reads
  \<^verbatim>\<open>validationArgs[0]\<close> without the guard that the \<^verbatim>\<open>between\<close> branch has: with the
  optional argument absent, \<open>evaluateAndFormat\<close> throws a TypeError before any validator
  runs, for every host, record and options.
\<close>

theorem evaluateAndFormat_before_undefined_throws:
  "evaluateAndFormat h field BEFORE dateFormat JUndefined options w = (Threw TypeError, w)"
  by (simp add: evaluateAndFormat_def index0_def andThen_def)

text \<open>
  C3. The claim is that, for every string matching the relative-date grammar, \<open>isDate\<close>
  is false while \<open>validate\<close> on a field holding that string returns true. The first half
  holds; the second fails on a detached record: the evaluator resolves the value, and
  \<open>validate\<close> then calls \<^verbatim>\<open>record.set\<close> without the \<^verbatim>\<open>!isRecordWithoutLinks\<close> guard
  (lines 175-177), so the call ends in a TypeError instead of the verdict true, for every
  host, format and options.
\<close>

theorem validate_relative_detached_throws:
  assumes "match_relative (toLowerCase s) \<noteq> None"
    and "\<not> linked w" and "vals w field = Some (JStr s)"
  shows "fst (isDate h (JStr s) u) = False
       \<and> (\<exists>d. parseDateArgument h (JStr s) w = (Returned (Some d), w\<lparr>reads := reads w + 1\<rparr>)
              \<and> validate h field dateFormat options w
                  = (Threw TypeError,
                     w\<lparr>reads := reads w + 1,
                        calls := calls w @ [CallSet field
                          (JStr (formatDate h d (str_or dateFormat ''yyyy-MM-dd'')))]\<rparr>))"
proof -
  obtain d where p: "parseDateArgument h (JStr s) w = (Returned (Some d), w\<lparr>reads := reads w + 1\<rparr>)"
    using parseDateArgument_relative [OF assms(1)] by blast
  from assms(1) have t: "s \<noteq> []"
    by (auto simp: match_relative_def toLowerCase_def split: if_splits)
  have n: "formatDate h d (str_or dateFormat ''yyyy-MM-dd'') \<noteq> []"
    by (simp add: formatDate_nonempty str_or_nonempty)
  have "validate h field dateFormat options w
        = (Threw TypeError,
           w\<lparr>reads := reads w + 1,
              calls := calls w @ [CallSet field
                (JStr (formatDate h d (str_or dateFormat ''yyyy-MM-dd'')))]\<rparr>)"
    using assms(2,3) p t n
    by (simp add: validate_def readField_def andThen_def record_set_def)
  with p assms(1) show ?thesis
    by (simp add: isDate_relative)
qed

theorem validate_relative_detached_throws_witness:
  "fst (isDate utc_host (JStr ''now+5days'') detached_world) = False
   \<and> fst (validate utc_host ''dob'' None no_options detached_world) = Threw TypeError"
proof -
  have m: "match_relative (toLowerCase ''now+5days'') \<noteq> None"
    by (simp add: now_plus_5)
  have l: "\<not> linked detached_world"
    by (simp add: det_linked)
  have v: "vals detached_world ''dob'' = Some (JStr ''now+5days'')"
    by (simp add: detached_world_def)
  from validate_relative_detached_throws [OF m l v, of utc_host detached_world None no_options]
  show ?thesis
    by auto
qed

text \<open>
  C4. The claim is that \<open>before\<close> and \<open>after\<close> both answer by a strict comparison of
  the two times. On a detached record whose value is a relative-date expression, with a
  Format Specification supplied and a string bound, the value and the bound resolve, and
  \<open>before\<close> returns its verdict, but \<open>after\<close> calls \<^verbatim>\<open>record.set\<close> without the guard
  that \<open>before\<close> has (line 378 against line 297) and ends in a TypeError instead of a
  verdict, for every host and options.
\<close>

theorem after_detached_relative_throws:
  assumes "match_relative (toLowerCase s) \<noteq> None"
    and "\<not> linked w" and "vals w field = Some (JStr s)"
    and "given dateFormat"
  shows "fst (after h field (JStr b) dateFormat options w) = Threw TypeError
       \<and> (\<exists>v. fst (before h field (JStr b) dateFormat options w) = Returned v)"
proof -
  obtain r w1 where b: "resolveBound h (JStr b) w = (Returned r, w1)" and l: "linked w1 = linked w"
    using resolveBound_text [of h b w] by blast
  obtain d where p: "parseDateArgument h (JStr s) w1 = (Returned (Some d), w1\<lparr>reads := reads w1 + 1\<rparr>)"
    using parseDateArgument_relative [OF assms(1)] by blast
  from assms(1) have t: "s \<noteq> []"
    by (auto simp: match_relative_def toLowerCase_def split: if_splits)
  have rd: "readField field w = Returned (JStr s, True)"
    using assms(2,3) by (simp add: readField_def)
  have a: "fst (after h field (JStr b) dateFormat options w) = Threw TypeError"
    using rd t b l p assms(1,2,4)
    by (simp add: after_def andThen_def resolveInput_relative record_set_def)
  have "\<exists>v. fst (before h field (JStr b) dateFormat options w) = Returned v"
    using rd t b l p assms(1,2,4)
    by (simp add: before_def andThen_def resolveInput_relative)
  with a show ?thesis
    by simp
qed

theorem after_detached_relative_throws_witness:
  "fst (resolveBound utc_host (JStr ''now+9days'') detached_world)
     = Returned (Some (Instant 1711238400000))
   \<and> fst (parseDateArgument utc_host (JStr ''now+5days'') (detached_world\<lparr>reads := 1\<rparr>))
     = Returned (Some (Instant 1710892800001))
   \<and> fst (after utc_host ''dob'' (JStr ''now+9days'') (Some ''MM/DD/YYYY'') no_options detached_world)
     = Threw TypeError"
proof -
  have m: "match_relative (toLowerCase ''now+5days'') \<noteq> None"
    by (simp add: now_plus_5)
  have l: "\<not> linked detached_world"
    by (simp add: det_linked)
  have v: "vals detached_world ''dob'' = Some (JStr ''now+5days'')"
    by (simp add: detached_world_def)
  have g: "given (Some ''MM/DD/YYYY'')"
    by (simp add: given_def)
  have a: "fst (after utc_host ''dob'' (JStr ''now+9days'') (Some ''MM/DD/YYYY'') no_options
                  detached_world) = Threw TypeError"
    using after_detached_relative_throws [OF m l v g, of utc_host "''now+9days''" no_options]
    by blast
  from a rel_bound_9_first [of detached_world, unfolded det_zero]
    rel_parse_5_second [of detached_world]
  show ?thesis
    by simp
qed

text \<open>
  C5. The claim is that a malformed Format Specification always renders as ISO
  \<^verbatim>\<open>YYYY-MM-DD\<close> with the full year. The fallback of line 117 recomputes the month and
  pads the day again but reuses the year rendering chosen at line 97: for the
  specification \<^verbatim>\<open>yy\<close> (one component, not three) the 15th of March 2024 renders as
  \<^verbatim>\<open>24-03-15\<close>.
\<close>

theorem formatDate_two_digit_year_fallback:
  "formatDate utc_host (Instant 1710460800000) ''yy'' = ''24-03-15''"
  by code_simp

text \<open>
  C6. The claim is that in reduced capability mode no write is issued on the record.
  \<open>validate\<close> (line 176) and \<open>after\<close> (line 378) call \<^verbatim>\<open>record.set\<close> without the
  \<^verbatim>\<open>!isRecordWithoutLinks\<close> guard that \<open>before\<close>, \<open>between\<close> and \<open>format\<close> have: on the
  detached example record both issue the call, which the record rejects.
\<close>

theorem detached_record_still_written:
  "fst (validate utc_host ''dob'' None no_options detached_world) = Threw TypeError
   \<and> calls (snd (validate utc_host ''dob'' None no_options detached_world))
       = [CallSet ''dob'' (JStr ''2024-03-20'')]
   \<and> fst (after utc_host ''dob'' (JStr ''now+1days'') (Some ''MM/DD/YYYY'') no_options detached_world)
       = Threw TypeError
   \<and> calls (snd (after utc_host ''dob'' (JStr ''now+1days'') (Some ''MM/DD/YYYY'') no_options detached_world))
       = [CallSet ''dob'' (JStr ''03/20/2024'')]"
proof -
  have v: "validate utc_host ''dob'' None no_options detached_world
           = (Threw TypeError,
              detached_world\<lparr>reads := 1, calls := [CallSet ''dob'' (JStr ''2024-03-20'')]\<rparr>)"
    using rel_parse_5_first [of detached_world, unfolded det_zero]
    by (simp add: validate_def det_read andThen_def utc_formats str_or_def given_def record_set_def
        det_linked det_calls)
  have a: "after utc_host ''dob'' (JStr ''now+1days'') (Some ''MM/DD/YYYY'') no_options detached_world
           = (Threw TypeError,
              detached_world\<lparr>reads := 2, calls := [CallSet ''dob'' (JStr ''03/20/2024'')]\<rparr>)"
    using rel_bound_1_first [of detached_world, unfolded det_zero]
      rel_parse_5_second [of detached_world]
    by (simp add: after_def det_read andThen_def resolveInput_relative now_plus_5
        utc_formats given_def text_of_def record_set_def det_linked det_calls)
  from v a show ?thesis by simp
qed

text \<open>
  C7, as stated, fails: on a detached record \<open>before\<close> resolves the value through the
  relative-date evaluator with a Format Specification supplied and issues no
  \<^verbatim>\<open>record.set\<close> (the guard of line 297).
\<close>

theorem before_detached_no_rewrite:
  "fst (isDate utc_host (JStr ''now+5days'') (detached_world\<lparr>reads := 1\<rparr>)) = False
   \<and> fst (parseDateArgument utc_host (JStr ''now+5days'') (detached_world\<lparr>reads := 1\<rparr>))
       = Returned (Some (Instant 1710892800001))
   \<and> fst (before utc_host ''dob'' (JStr ''now+1days'') (Some ''MM/DD/YYYY'') no_options detached_world)
       = Returned False
   \<and> calls (snd (before utc_host ''dob'' (JStr ''now+1days'') (Some ''MM/DD/YYYY'') no_options detached_world))
       = []"
proof -
  have b: "before utc_host ''dob'' (JStr ''now+1days'') (Some ''MM/DD/YYYY'') no_options detached_world
           = (Returned False, detached_world\<lparr>reads := 2\<rparr>)"
    using rel_bound_1_first [of detached_world, unfolded det_zero]
      rel_parse_5_second [of detached_world]
    by (simp add: before_def det_read andThen_def resolveInput_relative now_plus_5
        time_lt_def opt_on_def no_options_def)
  from b rel_parse_5_second [of detached_world] show ?thesis
    by (simp add: isDate_relative now_plus_5 det_calls)
qed

text \<open>
  C7, amended. On a linked record whose non-empty value fails \<open>isDate\<close> and is resolved
  by the relative-date evaluator to \<open>d\<close>, with a non-empty Format Specification and
  bounds that resolve without an exception, \<open>before\<close>, \<open>after\<close> and \<open>between\<close> each
  issue \<^verbatim>\<open>record.set(field, formatDate(d, dateFormat))\<close>, and the field holds that text
  when the call ends, whatever the verdict.
\<close>

theorem relative_value_rewritten_when_linked:
  assumes lk: "linked w"
    and rd: "readField field w = Returned (value, nl)"
    and tr: "truthy value"
    and gf: "given dateFormat"
    and b1: "resolveBound h bound w = (Returned b, w1)"
    and i1: "isDate h (JStr (js_toString value)) w1 = (False, u1)"
    and p1: "parseDateArgument h value u1 = (Returned (Some d), v1)"
    and b2: "resolveBound h bound2 w1 = (Returned b2, w2)"
    and i2: "isDate h (JStr (js_toString value)) w2 = (False, u2)"
    and p2: "parseDateArgument h value u2 = (Returned (Some d2), v2)"
  shows "CallSet field (JStr (formatDate h d (text_of dateFormat)))
           \<in> set (calls (snd (before h field bound dateFormat options w)))
       \<and> vals (snd (before h field bound dateFormat options w)) field
           = Some (JStr (formatDate h d (text_of dateFormat)))
       \<and> CallSet field (JStr (formatDate h d (text_of dateFormat)))
           \<in> set (calls (snd (after h field bound dateFormat options w)))
       \<and> vals (snd (after h field bound dateFormat options w)) field
           = Some (JStr (formatDate h d (text_of dateFormat)))
       \<and> CallSet field (JStr (formatDate h d2 (text_of dateFormat)))
           \<in> set (calls (snd (between h field bound bound2 dateFormat options w)))
       \<and> vals (snd (between h field bound bound2 dateFormat options w)) field
           = Some (JStr (formatDate h d2 (text_of dateFormat)))"
proof -
  have nl: "\<not> nl"
    using readField_flag [OF rd] lk by simp
  have l1: "linked v1"
    using resolveBound_keeps [OF b1] isDate_keeps [OF i1] parseDateArgument_keeps [OF p1] lk by simp
  have l2: "linked v2"
    using resolveBound_keeps [OF b1] resolveBound_keeps [OF b2] isDate_keeps [OF i2]
      parseDateArgument_keeps [OF p2] lk by simp
  have r1: "resolveInput h field value dateFormat g w1
            = (Returned (Some d),
               v1\<lparr>vals := (vals v1)(field \<mapsto> JStr (formatDate h d (text_of dateFormat))),
                   calls := calls v1 @ [CallSet field (JStr (formatDate h d (text_of dateFormat)))]\<rparr>)"
    if "g" for g
    using i1 p1 gf l1 that by (simp add: resolveInput_def andThen_def record_set_def)
  have r2: "resolveInput h field value dateFormat True w2
            = (Returned (Some d2),
               v2\<lparr>vals := (vals v2)(field \<mapsto> JStr (formatDate h d2 (text_of dateFormat))),
                   calls := calls v2 @ [CallSet field (JStr (formatDate h d2 (text_of dateFormat)))]\<rparr>)"
    using i2 p2 gf l2 by (simp add: resolveInput_def andThen_def record_set_def)
  have bf: "CallSet field (JStr (formatDate h d (text_of dateFormat)))
              \<in> set (calls (snd (before h field bound dateFormat options w)))
          \<and> vals (snd (before h field bound dateFormat options w)) field
              = Some (JStr (formatDate h d (text_of dateFormat)))"
    using rd tr b1 r1 [of True] nl gf l1
    by (simp add: before_def andThen_def boundText_def record_addError_def split: option.splits)
  have af: "CallSet field (JStr (formatDate h d (text_of dateFormat)))
              \<in> set (calls (snd (after h field bound dateFormat options w)))
          \<and> vals (snd (after h field bound dateFormat options w)) field
              = Some (JStr (formatDate h d (text_of dateFormat)))"
    using rd tr b1 r1 [of True] nl gf l1
    by (simp add: after_def andThen_def boundText_def record_addError_def split: option.splits)
  have bt: "CallSet field (JStr (formatDate h d2 (text_of dateFormat)))
              \<in> set (calls (snd (between h field bound bound2 dateFormat options w)))
          \<and> vals (snd (between h field bound bound2 dateFormat options w)) field
              = Some (JStr (formatDate h d2 (text_of dateFormat)))"
    using rd tr b1 b2 r2 nl gf l2
    by (simp add: between_def andThen_def boundText_def record_addError_def split: option.splits)
  from bf af bt show ?thesis by simp
qed

theorem relative_value_rewritten_when_linked_witness:
  "fst (before utc_host ''d'' (JStr ''now+1days'') (Some ''MM/DD/YYYY'') no_options rel_world)
     = Returned False
   \<and> CallSet ''d'' (JStr ''03/20/2024'')
       \<in> set (calls (snd (before utc_host ''d'' (JStr ''now+1days'') (Some ''MM/DD/YYYY'')
                             no_options rel_world)))"
proof -
  have t: "truthy (JStr ''now+5days'')"
    by simp
  have g: "given (Some ''MM/DD/YYYY'')"
    by (simp add: given_def)
  have i1: "isDate utc_host (JStr (js_toString (JStr ''now+5days''))) (rel_world\<lparr>reads := 1\<rparr>)
            = (False, rel_world\<lparr>reads := 1\<rparr>)"
    by (simp add: isDate_relative now_plus_5)
  have i2: "isDate utc_host (JStr (js_toString (JStr ''now+5days''))) (rel_world\<lparr>reads := 2\<rparr>)
            = (False, rel_world\<lparr>reads := 2\<rparr>)"
    by (simp add: isDate_relative now_plus_5)
  have f: "fst (before utc_host ''d'' (JStr ''now+1days'') (Some ''MM/DD/YYYY'') no_options rel_world)
           = Returned False"
    using rel_bound_1 rel_parse_5_second [of rel_world]
    by (simp add: before_def rel_read andThen_def resolveInput_relative now_plus_5 g
        record_set_def rel_linked time_lt_def opt_on_def no_options_def)
  from relative_value_rewritten_when_linked [OF rel_linked rel_read t g rel_bound_1 i1
      rel_parse_5_second [of rel_world] rel_bound_9 i2 rel_parse_5_third [of rel_world],
      of no_options] f
  show ?thesis
    by (simp add: text_of_def utc_formats)
qed

text \<open>
  C8. When the field value read is empty or absent and \<^verbatim>\<open>validateOnEmpty\<close> is not set,
  \<open>validate\<close> returns false and leaves the record as it was: no \<^verbatim>\<open>record.set\<close>, no
  error annotation. In every call of \<open>validate\<close> and of \<open>format\<close>, each \<^verbatim>\<open>record.set\<close>
  issued stores a non-empty string. For a text value that is neither \<^verbatim>\<open>now\<close> nor a
  relative-date expression and that the parser rejects, \<open>validate\<close> returns false,
  \<open>format\<close> returns the empty string, and neither issues a \<^verbatim>\<open>record.set\<close> or changes a
  stored value.
\<close>

theorem validate_empty_and_unparsable_unmodified:
  assumes "readField field w = Returned (value, nl)"
    and "\<not> truthy value"
    and "\<not> opt_on (validateOnEmpty options)"
    and "readField f u = Returned (JStr s, nlu)"
    and "toLowerCase s \<noteq> ''now''"
    and "match_relative (toLowerCase s) = None"
    and "\<forall>d. chrono_parseDate h (clock h (reads u + 1)) s \<noteq> Parsed d"
  shows "validate h field dateFormat options w = (Returned False, w)
       \<and> list_all nonempty_write (drop (length (calls x)) (calls (snd (validate h g df o1 x))))
       \<and> list_all nonempty_write (drop (length (calls x)) (calls (snd (format h g df o2 x))))
       \<and> fst (validate h f df o1 u) = Returned False
       \<and> vals (snd (validate h f df o1 u)) = vals u
       \<and> \<not> list_ex is_set_call (drop (length (calls u)) (calls (snd (validate h f df o1 u))))
       \<and> fst (format h f df o2 u) = Returned []
       \<and> vals (snd (format h f df o2 u)) = vals u
       \<and> calls (snd (format h f df o2 u)) = calls u"
proof -
  have e: "validate h field dateFormat options w = (Returned False, w)"
    using assms(1-3) by (simp add: validate_def andThen_def)
  have c: "chrono_parseDate h (clock h (Suc (reads u))) s \<noteq> Parsed d" for d
    using assms(7) by simp
  have nlu: "nlu = (\<not> linked u)"
    using readField_flag [OF assms(4)] .
  have v: "fst (validate h f df o1 u) = Returned False
       \<and> vals (snd (validate h f df o1 u)) = vals u
       \<and> \<not> list_ex is_set_call (drop (length (calls u)) (calls (snd (validate h f df o1 u))))"
  proof (cases "s = []")
    case True
    then show ?thesis
      using assms(4) nlu
      by (simp add: validate_def andThen_def record_addError_def is_set_call_def)
  next
    case False
    then show ?thesis
      using assms(4) nlu c parseDateArgument_unparsable [OF assms(5,6) False, of h u]
      by (simp add: validate_def andThen_def isDate_def assms(6) record_addError_def is_set_call_def
          split: chrono_result.splits)
  qed
  have fm: "fst (format h f df o2 u) = Returned []
       \<and> vals (snd (format h f df o2 u)) = vals u
       \<and> calls (snd (format h f df o2 u)) = calls u"
  proof (cases "s = []")
    case True
    then show ?thesis
      using assms(4) by (simp add: format_def andThen_def)
  next
    case False
    then show ?thesis
      using assms(4) c parseDateArgument_unparsable [OF assms(5,6) False, of h u]
      by (simp add: format_def andThen_def parseDate_def split: chrono_result.splits)
  qed
  from e v fm validate_writes format_writes show ?thesis
    by blast
qed

theorem validate_empty_and_unparsable_unmodified_witness:
  "validate utc_host ''d'' None no_options empty_world = (Returned False, empty_world)
   \<and> fst (validate utc_host ''d'' None no_options banana_world) = Returned False
   \<and> vals (snd (validate utc_host ''d'' None no_options banana_world)) = vals banana_world"
proof -
  have r: "readField ''d'' empty_world = Returned (JStr '''', False)"
    by (simp add: readField_def empty_world_def)
  have t: "\<not> truthy (JStr '''')"
    by simp
  have o: "\<not> opt_on (validateOnEmpty no_options)"
    by (simp add: opt_on_def no_options_def)
  have rb: "readField ''d'' banana_world = Returned (JStr ''banana'', False)"
    by (simp add: readField_def banana_world_def)
  have c: "\<forall>d. chrono_parseDate utc_host (clock utc_host (reads banana_world + 1)) ''banana'' \<noteq> Parsed d"
    by (simp add: banana_chrono)
  from validate_empty_and_unparsable_unmodified [OF r t o rb banana_facts c,
      where dateFormat = None and df = None and ?o1.0 = no_options]
  show ?thesis
    by blast
qed

text \<open>
  C9. When \<^verbatim>\<open>validationArgs\<close> is not an array of exactly two elements, the
  \<^verbatim>\<open>between\<close> dispatch is the call of \<open>between\<close> with \<^verbatim>\<open>null\<close> for both bounds followed
  by the finishing step; for a field value that is a string or empty the call returns
  false, and for no input at all does it return true.
\<close>

theorem between_malformed_args_false:
  assumes "\<forall>xs. validationArgs = JArr xs \<longrightarrow> length xs \<noteq> 2"
    and "readField field w = Returned (value, nl)"
    and "truthy value \<longrightarrow> (\<exists>s. value = JStr s)"
  shows "evaluateAndFormat h field BETWEEN dateFormat validationArgs options w
           = andThen (between h field JNull JNull dateFormat options w)
               (thenFormat h field dateFormat options)
       \<and> fst (evaluateAndFormat h field BETWEEN dateFormat validationArgs options w) = Returned False
       \<and> fst (evaluateAndFormat h g BETWEEN df validationArgs opts u) \<noteq> Returned True"
proof -
  note a = betweenArgs_malformed [OF assms(1)]
  have e: "evaluateAndFormat h field BETWEEN dateFormat validationArgs options w
           = andThen (between h field JNull JNull dateFormat options w)
               (thenFormat h field dateFormat options)"
    by (simp add: evaluateAndFormat_def a)
  obtain w' where b: "between h field JNull JNull dateFormat options w = (Returned False, w')"
    and l: "linked w' = linked w"
    and vs: "vals w' field = vals w field \<or> (\<exists>t. vals w' field = Some (JStr t))"
    using between_null_returns [OF assms(2,3)] by blast
  have "\<exists>v' nl'. readField field w' = Returned (v', nl') \<and> (truthy v' \<longrightarrow> (\<exists>s. v' = JStr s))"
    using assms(2,3) l vs
    by (auto simp: readField_def split: if_splits option.splits)
  then obtain x w'' where "format h field dateFormat options w' = (Returned x, w'')"
    using format_returns by blast
  then have "fst (thenFormat h field dateFormat options False w') = Returned False"
    by (simp add: thenFormat_def andThen_def)
  with e b have "fst (evaluateAndFormat h field BETWEEN dateFormat validationArgs options w)
                 = Returned False"
    by (simp add: andThen_def)
  with e evaluate_between_never_true [OF a] show ?thesis
    by simp
qed

theorem between_malformed_args_false_witness:
  "fst (evaluateAndFormat utc_host ''d'' BETWEEN None (JStr ''2024-01-01'') no_options rel_world)
   = Returned False"
proof -
  have a: "\<forall>xs. JStr ''2024-01-01'' = JArr xs \<longrightarrow> length xs \<noteq> 2"
    by simp
  have t: "truthy (JStr ''now+5days'') \<longrightarrow> (\<exists>s. JStr ''now+5days'' = JStr s)"
    by simp
  from between_malformed_args_false [OF a rel_read t]
  show ?thesis
    by blast
qed

text \<open>
  C10. \<open>isSSN\<close> is \<open>matchesPattern\<close> with the SSN pattern on the value read from the
  record: the verdict is the pattern's answer on the raw text, so it is false for every
  value containing a non-digit, and \<open>matchesPattern\<close> gives the same result whatever
  \<^verbatim>\<open>preprocessedValue\<close> it is handed.
\<close>

theorem isSSN_tests_raw_value:
  assumes "readText field w = Returned (JStr s, nl)"
  shows "fst (isSSN field options w) = Returned (ssnPattern s)
       \<and> (list_ex (\<lambda>c. \<not> is_digit c) s \<longrightarrow> fst (isSSN field options w) = Returned False)
       \<and> isSSN field options w
           = matchesPattern field ssnPattern
               (options\<lparr>p_errorMsg := Some (str_or (p_errorMsg options)
                                               ''Please enter a valid Social Security Number'')\<rparr>) w
       \<and> matchesPattern g pattern (opts\<lparr>p_preprocessedValue := x\<rparr>) u = matchesPattern g pattern opts u"
proof -
  have e: "ssnPattern [] = False"
    by (simp add: ssnPattern_def)
  have r: "fst (isSSN field options w) = Returned (ssnPattern s)"
    using assms readText_flag [OF assms] e
    by (simp add: isSSN_def digitsOnly_def matchesPattern_def andThen_def record_addError_def Let_def)
  have n: "list_ex (\<lambda>c. \<not> is_digit c) s \<Longrightarrow> \<not> ssnPattern s"
    using ssnPattern_digits [of s] by (auto simp: list_all_iff list_ex_iff)
  have m: "isSSN field options w
           = matchesPattern field ssnPattern
               (options\<lparr>p_errorMsg := Some (str_or (p_errorMsg options)
                                               ''Please enter a valid Social Security Number'')\<rparr>) w"
    using assms
    by (simp add: isSSN_def digitsOnly_def matchesPattern_def Let_def)
  from r n m matchesPattern_ignores_preprocessed show ?thesis
    by auto
qed

theorem isSSN_tests_raw_value_witness:
  "fst (isSSN ''ssn'' no_pattern_options ssn_world) = Returned False
   \<and> fst (isSSN ''plain'' no_pattern_options ssn_world) = Returned True"
proof -
  have a: "readText ''ssn'' ssn_world = Returned (JStr ''123-45-6789'', False)"
    by (simp add: readText_def ssn_world_def)
  have b: "readText ''plain'' ssn_world = Returned (JStr ''123456789'', False)"
    by (simp add: readText_def ssn_world_def)
  have x: "fst (isSSN ''ssn'' no_pattern_options ssn_world) = Returned False"
    using isSSN_tests_raw_value [OF a, of no_pattern_options] ssn_examples(2) by blast
  have y: "fst (isSSN ''plain'' no_pattern_options ssn_world) = Returned (ssnPattern ''123456789'')"
    using isSSN_tests_raw_value [OF b, of no_pattern_options] by blast
  from x y ssn_examples(1) show ?thesis
    by simp
qed

end
